theory Spec2Isabelle
  imports Complex_Main "HOL-Library.AList"
begin

section \<open>Multi-region dashboard: data model\<close>

text \<open>
  The dashboard is a Python (FastAPI) program.  Its modules are embedded as follows.

  \<^item> Python dictionaries keep insertion order, so they are association lists;
    \<open>d.get(k)\<close> is \<open>map_of\<close>, \<open>d[k] = v\<close> is \<open>AList.update\<close> (replace in place, or append).
  \<^item> Python floats that occur here are finite (rounded latencies and sizes); they are
    modelled by the rational number they denote, and \<open>round(x, 2)\<close> by rounding half
    to even on hundredths.  Sums, means and roundings are therefore exact, where the
    program rounds after float arithmetic: a rounded value of the program can differ
    from the model's in its last digit.  No statement below depends on that digit.
  \<^item> A Python exception (any subclass of \<open>Exception\<close>) is the value \<open>Raised msg\<close>,
    where \<open>msg\<close> is \<open>str(e)\<close>.
  \<^item> Module globals that change while the process runs (the demo flag store, the state
    of the \<open>random\<close> generator) and the collaborator calls a handler makes are the
    fields of the record \<open>state\<close>; what the handlers only read (environment variables,
    the flag-service client, the connection pools and what the databases answer) is
    the record \<open>env\<close>.
\<close>

subsection \<open>Values, exceptions\<close>

datatype flag_value = BoolV bool | IntV int

text \<open>Python truthiness of a flag value (\<open>if not is_region_enabled(...)\<close>).\<close>

fun truthy :: "flag_value \<Rightarrow> bool" where
  "truthy (BoolV b) = b"
| "truthy (IntV n) = (n \<noteq> 0)"

datatype 'a outcome = Raised string | Returned 'a

subsection \<open>config.py\<close>

record RegionConfig =
  name :: string
  role :: string
  env_key :: string
  color :: string

definition REGIONS :: "(string \<times> RegionConfig) list" where
  "REGIONS =
     [(''us-east'',
        \<lparr>name = ''US East (Virginia)'', role = ''PRIMARY'',
         env_key = ''AIVEN_PG_US_EAST'', color = ''#10b981''\<rparr>),
      (''eu-west'',
        \<lparr>name = ''EU West (Ireland)'', role = ''REPLICA'',
         env_key = ''AIVEN_PG_EU_WEST'', color = ''#3b82f6''\<rparr>),
      (''asia-pacific'',
        \<lparr>name = ''Asia Pacific (Singapore)'', role = ''REPLICA'',
         env_key = ''AIVEN_PG_ASIA_PACIFIC'', color = ''#f59e0b''\<rparr>)]"

text \<open>\<open>DEFAULTS["load_test_concurrent"]\<close>, the only default the handlers read.\<close>

definition DEFAULTS_load_test_concurrent :: int where
  "DEFAULTS_load_test_concurrent = 10"

subsection \<open>feature_flags.py: the demo flag store\<close>

type_synonym flags = "(string \<times> flag_value) list"

definition initial_demo_flags :: flags where
  "initial_demo_flags =
     [(''region-us-east-enabled'', BoolV True),
      (''region-eu-west-enabled'', BoolV True),
      (''region-asia-pacific-enabled'', BoolV True),
      (''enable-health-checks'', BoolV True),
      (''enable-load-testing'', BoolV True),
      (''dashboard-refresh-seconds'', IntV 30)]"

text \<open>
  The calls a handler makes to its collaborators, in the order in which it makes them:
  the awaited sleeps, the simulators of \<open>api.py\<close> and the database operations of
  \<open>database.py\<close>.  A handler appends each call to the trace of the state when it
  makes it, so a trace that has not grown says that none was made.
\<close>

datatype call =
  Sleep rat
| SimulateConnection string
| TestConnection string
| SimulateHealth
| GetHealthMetrics string
| SimulateLoadTest string int
| RunLoadTest string int

record state =
  demo_flags :: flags
  rng :: "nat \<Rightarrow> rat"
  trace :: "call list"

text \<open>
  \<open>toggle_demo_flag\<close>: flips the flag when the key is present and its value is a
  \<open>bool\<close> (\<open>isinstance(30, bool)\<close> is false), and says whether it did.
\<close>

definition toggle_demo_flag :: "state \<Rightarrow> string \<Rightarrow> bool \<times> state" where
  "toggle_demo_flag s flag_key =
     (case map_of (demo_flags s) flag_key of
        Some (BoolV b) \<Rightarrow>
          (True, s\<lparr>demo_flags := AList.update flag_key (BoolV (\<not> b)) (demo_flags s)\<rparr>)
      | _ \<Rightarrow> (False, s))"

definition get_demo_flags :: "state \<Rightarrow> flags" where
  "get_demo_flags s = demo_flags s"

subsection \<open>Numbers and text\<close>

text \<open>
  \<open>round(x, 2)\<close> on a float: the nearest multiple of one hundredth, a tie going to the
  even one.
\<close>

definition round_half_even :: "rat \<Rightarrow> int" where
  "round_half_even x =
     (let f = \<lfloor>x\<rfloor>; d = x - of_int f
      in if d < 1 / 2 then f
         else if 1 / 2 < d then f + 1
         else if even f then f else f + 1)"

definition py_round2 :: "rat \<Rightarrow> rat" where
  "py_round2 x = of_int (round_half_even (x * 100)) / 100"

text \<open>\<open>str(n)\<close> of an integer, as the f-string of the simulated server address needs it.\<close>

fun str_nat :: "nat \<Rightarrow> string" where
  "str_nat n =
     (if n < 10 then [char_of (48 + n)]
      else str_nat (n div 10) @ [char_of (48 + n mod 10)])"

declare str_nat.simps [simp del]

definition str_int :: "int \<Rightarrow> string" where
  "str_int i = (if i < 0 then ''-'' @ str_nat (nat (- i)) else str_nat (nat i))"

text \<open>\<open>min(xs)\<close> and \<open>max(xs)\<close> raise \<open>ValueError\<close> on an empty list.\<close>

fun py_min :: "rat list \<Rightarrow> rat outcome" where
  "py_min [] = Raised ''min() arg is an empty sequence''"
| "py_min (x # xs) = Returned (fold min xs x)"

fun py_max :: "rat list \<Rightarrow> rat outcome" where
  "py_max [] = Raised ''max() arg is an empty sequence''"
| "py_max (x # xs) = Returned (fold max xs x)"

text \<open>\<open>sum(xs) / len(xs)\<close> raises \<open>ZeroDivisionError\<close> on an empty list.\<close>

definition py_mean :: "rat list \<Rightarrow> rat outcome" where
  "py_mean xs =
     (if length xs = 0 then Raised ''division by zero''
      else Returned (sum_list xs / of_nat (length xs)))"

subsection \<open>database.py: the data classes\<close>

record ConnectionResult =
  success :: bool
  latency_ms :: rat
  server_ip :: string
  server_port :: int
  backend_pid :: int
  database :: string
  pg_version :: string
  error :: string

record HealthMetrics =
  cache_hit_ratio :: rat
  active_connections :: int
  max_connections :: int
  db_size_mb :: rat

record LoadTestResult =
  concurrent :: int
  min_ms :: rat
  max_ms :: rat
  avg_ms :: rat
  results :: "rat list"

text \<open>\<open>ConnectionResult(success=False, error=msg)\<close>: every other field at its default.\<close>

definition failed_connection :: "string \<Rightarrow> ConnectionResult" where
  "failed_connection msg =
     \<lparr>success = False, latency_ms = 0, server_ip = '''', server_port = 0, backend_pid = 0,
      database = '''', pg_version = '''', error = msg\<rparr>"

subsection \<open>database.py: what a database answers\<close>

text \<open>
  The rows \<open>fetchrow\<close> returns for the queries of this program; a column is \<open>None\<close>
  when the database returns NULL.
\<close>

record info_row =
  row_server_ip :: "string option"
  row_server_port :: "int option"
  row_backend_pid :: "int option"
  row_database :: "string option"
  row_pg_version :: "string option"

record cache_row =
  row_cache_hit_ratio :: "rat option"

record conn_row =
  row_active_connections :: "int option"
  row_max_connections :: "int option"

record size_row =
  row_db_size_mb :: "rat option"

text \<open>
  An acquired connection: the outcome of each query the program issues on it (a
  \<open>fetchrow\<close> returns a row or \<open>None\<close>, or raises), of giving the connection back when
  the \<open>async with\<close> block is left, and the wall time in seconds between the two
  \<open>time.perf_counter()\<close> readings of the operation that uses it.
\<close>

record conn =
  fetchrow_info :: "info_row option outcome"
  fetchrow_cache :: "cache_row option outcome"
  fetchrow_conns :: "conn_row option outcome"
  fetchrow_size :: "size_row option outcome"
  fetchval_select1 :: "int outcome"
  release :: "unit outcome"
  elapsed :: rat

text \<open>A pool: the outcome of the \<open>i\<close>-th \<open>pool.acquire()\<close> of an operation.\<close>

record pool =
  acquire :: "nat \<Rightarrow> conn outcome"

record env =
  DEMO_MODE :: bool
  getenv :: "string \<Rightarrow> string option"
  ld_client :: "(string \<Rightarrow> string \<Rightarrow> flag_value) option"
  pools :: "string \<Rightarrow> pool option"

definition get_pool :: "env \<Rightarrow> string \<Rightarrow> pool option" where
  "get_pool e region_id = pools e region_id"

text \<open>
  \<open>async with pool.acquire() as conn: body\<close>.  The connection is given back however
  the body ends; an exception of the release replaces the body's result.
\<close>

definition with_acquire :: "pool \<Rightarrow> nat \<Rightarrow> (conn \<Rightarrow> 'a outcome) \<Rightarrow> 'a outcome" where
  "with_acquire p i body =
     (case acquire p i of
        Raised m \<Rightarrow> Raised m
      | Returned c \<Rightarrow>
          (case body c of
             Raised m \<Rightarrow> (case release c of Raised m' \<Rightarrow> Raised m' | Returned _ \<Rightarrow> Raised m)
           | Returned v \<Rightarrow> (case release c of Raised m' \<Rightarrow> Raised m' | Returned _ \<Rightarrow> Returned v)))"

text \<open>\<open>row[...]\<close> on the result of \<open>fetchrow\<close>: \<open>None\<close> is not subscriptable.\<close>

definition not_subscriptable :: string where
  "not_subscriptable = [CHR 0x27] @ ''NoneType'' @ [CHR 0x27] @ '' object is not subscriptable''"

fun subscript :: "'a option \<Rightarrow> 'a outcome" where
  "subscript None = Raised not_subscriptable"
| "subscript (Some row) = Returned row"

text \<open>\<open>v or d\<close> for a column \<open>v\<close> whose falsy values are \<open>None\<close> and \<open>d\<close> itself.\<close>

fun or_default :: "'a option \<Rightarrow> 'a \<Rightarrow> 'a" where
  "or_default None d = d"
| "or_default (Some v) d = v"

subsection \<open>database.py: test_connection\<close>

text \<open>The body of the \<open>try\<close> block of \<open>test_connection\<close>.\<close>

definition test_connection_try :: "pool \<Rightarrow> ConnectionResult outcome" where
  "test_connection_try p =
     with_acquire p 0 (\<lambda>c.
       case fetchrow_info c of
         Raised m \<Rightarrow> Raised m
       | Returned fetched \<Rightarrow>
           (case subscript fetched of
              Raised m \<Rightarrow> Raised m
            | Returned row \<Rightarrow>
                Returned
                  \<lparr>success = True,
                   latency_ms = py_round2 (elapsed c * 1000),
                   server_ip = or_default (row_server_ip row) '''',
                   server_port = or_default (row_server_port row) 0,
                   backend_pid = or_default (row_backend_pid row) 0,
                   database = or_default (row_database row) '''',
                   pg_version = or_default (row_pg_version row) '''',
                   error = ''''\<rparr>))"

text \<open>
  \<open>test_connection\<close>: no pool gives the fixed failure; \<open>except Exception as e\<close> turns
  whatever the block raised into a failure that carries \<open>str(e)\<close>.
\<close>

definition test_connection :: "env \<Rightarrow> string \<Rightarrow> ConnectionResult outcome" where
  "test_connection e region_id =
     (case get_pool e region_id of
        None \<Rightarrow> Returned (failed_connection ''No connection pool available'')
      | Some p \<Rightarrow>
          (case test_connection_try p of
             Raised m \<Rightarrow> Returned (failed_connection m)
           | Returned r \<Rightarrow> Returned r))"

subsection \<open>database.py: get_health_metrics\<close>

text \<open>
  The body of the \<open>try\<close> block: the three queries on one connection, then the record
  built from the three rows.
\<close>

definition get_health_metrics_try :: "pool \<Rightarrow> HealthMetrics outcome" where
  "get_health_metrics_try p =
     with_acquire p 0 (\<lambda>c.
       case fetchrow_cache c of
         Raised m \<Rightarrow> Raised m
       | Returned cache_fetched \<Rightarrow>
       (case fetchrow_conns c of
         Raised m \<Rightarrow> Raised m
       | Returned conn_fetched \<Rightarrow>
       (case fetchrow_size c of
         Raised m \<Rightarrow> Raised m
       | Returned size_fetched \<Rightarrow>
       (case subscript cache_fetched of
         Raised m \<Rightarrow> Raised m
       | Returned cache \<Rightarrow>
       (case subscript conn_fetched of
         Raised m \<Rightarrow> Raised m
       | Returned cn \<Rightarrow>
       (case subscript size_fetched of
         Raised m \<Rightarrow> Raised m
       | Returned sz \<Rightarrow>
           Returned
             \<lparr>cache_hit_ratio = or_default (row_cache_hit_ratio cache) 0,
              active_connections = or_default (row_active_connections cn) 0,
              max_connections = or_default (row_max_connections cn) 0,
              db_size_mb = py_round2 (or_default (row_db_size_mb sz) 0)\<rparr>))))))"

definition get_health_metrics :: "env \<Rightarrow> string \<Rightarrow> HealthMetrics option" where
  "get_health_metrics e region_id =
     (case get_pool e region_id of
        None \<Rightarrow> None
      | Some p \<Rightarrow>
          (case get_health_metrics_try p of
             Raised m \<Rightarrow> None
           | Returned metrics \<Rightarrow> Some metrics))"

subsection \<open>database.py: run_load_test\<close>

text \<open>
  The inner coroutine \<open>single_query\<close>, as the \<open>i\<close>-th task runs it: the time is read
  once the connection has been given back.
\<close>

definition single_query :: "pool \<Rightarrow> nat \<Rightarrow> rat outcome" where
  "single_query p i =
     (case with_acquire p i
             (\<lambda>c. case fetchval_select1 c of Raised m \<Rightarrow> Raised m | Returned _ \<Rightarrow> Returned c) of
        Raised m \<Rightarrow> Raised m
      | Returned c \<Rightarrow> Returned (elapsed c * 1000))"

text \<open>
  \<open>asyncio.gather(*tasks, return_exceptions=True)\<close> over
  \<open>[single_query() for _ in range(concurrent)]\<close>: one entry per task, in the order of
  the tasks, an exception standing where its task raised.
\<close>

definition gather_single_queries :: "pool \<Rightarrow> int \<Rightarrow> rat outcome list" where
  "gather_single_queries p n = map (single_query p) [0 ..< nat n]"

text \<open>\<open>[r for r in results if isinstance(r, (int, float))]\<close>.\<close>

fun valid_results :: "rat outcome list \<Rightarrow> rat list" where
  "valid_results [] = []"
| "valid_results (Raised m # rs) = valid_results rs"
| "valid_results (Returned r # rs) = r # valid_results rs"

definition run_load_test_try :: "pool \<Rightarrow> int \<Rightarrow> LoadTestResult option outcome" where
  "run_load_test_try p n =
     (let valid = valid_results (gather_single_queries p n)
      in if valid = [] then Returned None
         else
           (case py_min valid of
              Raised m \<Rightarrow> Raised m
            | Returned lo \<Rightarrow>
           (case py_max valid of
              Raised m \<Rightarrow> Raised m
            | Returned hi \<Rightarrow>
           (case py_mean valid of
              Raised m \<Rightarrow> Raised m
            | Returned avg \<Rightarrow>
                Returned (Some
                  \<lparr>concurrent = n,
                   min_ms = py_round2 lo,
                   max_ms = py_round2 hi,
                   avg_ms = py_round2 avg,
                   results = map py_round2 valid\<rparr>)))))"

definition run_load_test :: "env \<Rightarrow> string \<Rightarrow> int \<Rightarrow> LoadTestResult option" where
  "run_load_test e region_id n =
     (case get_pool e region_id of
        None \<Rightarrow> None
      | Some p \<Rightarrow>
          (case run_load_test_try p n of
             Raised m \<Rightarrow> None
           | Returned r \<Rightarrow> r))"

subsection \<open>feature_flags.py: flag evaluation\<close>

text \<open>
  The flag-service client, when there is one, is its \<open>variation\<close> method: the flag key
  and the user key give the value (the default \<open>True\<close> where the service has none).
\<close>

definition demo_flag_or_true :: "state \<Rightarrow> string \<Rightarrow> flag_value" where
  "demo_flag_or_true s flag_key =
     (case map_of (demo_flags s) flag_key of None \<Rightarrow> BoolV True | Some v \<Rightarrow> v)"

definition is_region_enabled :: "env \<Rightarrow> state \<Rightarrow> string \<Rightarrow> string \<Rightarrow> flag_value" where
  "is_region_enabled e s region_id user_key =
     (let flag_key = ''region-'' @ region_id @ ''-enabled''
      in if DEMO_MODE e then demo_flag_or_true s flag_key
         else
           (case ld_client e of
              None \<Rightarrow> demo_flag_or_true s flag_key
            | Some variation \<Rightarrow> variation flag_key user_key))"

definition is_feature_enabled :: "env \<Rightarrow> state \<Rightarrow> string \<Rightarrow> string \<Rightarrow> flag_value" where
  "is_feature_enabled e s feature user_key =
     (let flag_key = ''enable-'' @ map (\<lambda>c. if c = CHR ''_'' then CHR ''-'' else c) feature
      in if DEMO_MODE e then demo_flag_or_true s flag_key
         else
           (case ld_client e of
              None \<Rightarrow> demo_flag_or_true s flag_key
            | Some variation \<Rightarrow> variation flag_key user_key))"

subsection \<open>The random generator\<close>

text \<open>
  The state of the \<open>random\<close> module is the sequence of the draws to come, each in
  \<open>[0, 1)\<close>; a call takes the first one.  \<open>random.uniform(a, b)\<close> is
  \<open>a + (b - a) * random()\<close>, and \<open>random.randint(a, b)\<close> picks among the
  \<open>b - a + 1\<close> integers from \<open>a\<close> on.  The integer is taken here from one such draw,
  where the library reads random bits: every value in the range can come out, but not
  the same one as in the program for the same state of the generator.
\<close>

definition random_uniform :: "rat \<Rightarrow> rat \<Rightarrow> (nat \<Rightarrow> rat) \<Rightarrow> rat \<times> (nat \<Rightarrow> rat)" where
  "random_uniform a b g = (a + (b - a) * g 0, (\<lambda>n. g (Suc n)))"

definition random_randint :: "int \<Rightarrow> int \<Rightarrow> (nat \<Rightarrow> rat) \<Rightarrow> int \<times> (nat \<Rightarrow> rat)" where
  "random_randint a b g = (a + \<lfloor>g 0 * of_int (b - a + 1)\<rfloor>, (\<lambda>n. g (Suc n)))"

subsection \<open>api.py: the demo simulators\<close>

definition base_latency :: "string \<Rightarrow> rat" where
  "base_latency region_id =
     (case map_of [(''us-east'', 25), (''eu-west'', 120), (''asia-pacific'', 180)] region_id of
        None \<Rightarrow> 100
      | Some b \<Rightarrow> b)"

definition simulate_connection :: "string \<Rightarrow> (nat \<Rightarrow> rat) \<Rightarrow> ConnectionResult \<times> (nat \<Rightarrow> rat)" where
  "simulate_connection region_id g =
     (let (jitter, g1) = random_uniform (- 10) 20 g;
          (o1, g2) = random_randint 1 255 g1;
          (o2, g3) = random_randint 1 255 g2;
          (o3, g4) = random_randint 1 255 g3;
          (pid, g5) = random_randint 10000 50000 g4
      in (\<lparr>success = True,
           latency_ms = py_round2 (base_latency region_id + jitter),
           server_ip = ''10.'' @ str_int o1 @ ''.'' @ str_int o2 @ ''.'' @ str_int o3,
           server_port = 6543,
           backend_pid = pid,
           database = ''defaultdb'',
           pg_version = ''PostgreSQL 16.2'',
           error = ''''\<rparr>, g5))"

definition simulate_health :: "(nat \<Rightarrow> rat) \<Rightarrow> HealthMetrics \<times> (nat \<Rightarrow> rat)" where
  "simulate_health g =
     (let (hit, g1) = random_uniform 0 (9 / 2) g;
          (active, g2) = random_randint 5 25 g1;
          (size, g3) = random_uniform 100 500 g2
      in (\<lparr>cache_hit_ratio = py_round2 (95 + hit),
           active_connections = active,
           max_connections = 100,
           db_size_mb = py_round2 size\<rparr>, g3))"

text \<open>
  \<open>[round(base + random.uniform(-5, 30) + (i * 1.5), 2) for i in range(concurrent)]\<close>:
  one draw per sample, in the order of \<open>i\<close>.
\<close>

fun simulated_samples :: "rat \<Rightarrow> nat list \<Rightarrow> (nat \<Rightarrow> rat) \<Rightarrow> rat list \<times> (nat \<Rightarrow> rat)" where
  "simulated_samples base [] g = ([], g)"
| "simulated_samples base (i # is) g =
     (let (jitter, g1) = random_uniform (- 5) 30 g;
          (rest, g2) = simulated_samples base is g1
      in (py_round2 (base + jitter + of_nat i * (3 / 2)) # rest, g2))"

definition simulate_load_test ::
  "string \<Rightarrow> int \<Rightarrow> (nat \<Rightarrow> rat) \<Rightarrow> LoadTestResult outcome \<times> (nat \<Rightarrow> rat)" where
  "simulate_load_test region_id n g =
     (let (samples, g1) = simulated_samples (base_latency region_id) [0 ..< nat n] g
      in ((case py_min samples of
             Raised m \<Rightarrow> Raised m
           | Returned lo \<Rightarrow>
          (case py_max samples of
             Raised m \<Rightarrow> Raised m
           | Returned hi \<Rightarrow>
          (case py_mean samples of
             Raised m \<Rightarrow> Raised m
           | Returned avg \<Rightarrow>
               Returned
                 \<lparr>concurrent = n, min_ms = lo, max_ms = hi, avg_ms = py_round2 avg,
                  results = samples\<rparr>))), g1))"

subsection \<open>api.py: requests and responses\<close>

record request =
  headers :: "string \<Rightarrow> string option"

definition user_key_of :: "request \<Rightarrow> string" where
  "user_key_of req = (case headers req ''X-User-ID'' of None \<Rightarrow> ''anonymous'' | Some u \<Rightarrow> u)"

text \<open>
  A response is an HTML fragment written in the handler, or a template with its
  context (the request, which every context also carries, is left out).
\<close>

datatype template_context =
  RegionCtx RegionConfig
| ConnectionCtx RegionConfig ConnectionResult
| AllResultsCtx "(string \<times> ConnectionResult) list" "(string \<times> RegionConfig) list"
| MetricsCtx HealthMetrics
| LoadTestCtx RegionConfig LoadTestResult
| FlagsCtx flags

datatype response =
  HTMLResponse string
| TemplateResponse string template_context

text \<open>The two emoji of the fragments, as the bytes of their UTF-8 encoding.\<close>

definition cross_mark :: string where
  "cross_mark = [CHR 0xE2, CHR 0x9D, CHR 0x8C]"

definition warning_sign :: string where
  "warning_sign = [CHR 0xE2, CHR 0x9A, CHR 0xA0, CHR 0xEF, CHR 0xB8, CHR 0x8F]"

definition red_fragment :: "string \<Rightarrow> response" where
  "red_fragment msg =
     HTMLResponse (''<div class=\"text-red-400\">'' @ cross_mark @ '' '' @ msg @ ''</div>'')"

definition amber_fragment :: "string \<Rightarrow> response" where
  "amber_fragment msg =
     HTMLResponse (''<div class=\"text-amber-400\">'' @ warning_sign @ '' '' @ msg @ ''</div>'')"

text \<open>\<open>not REGIONS[region_id].dsn\<close>: the variable is unset, or set to the empty string.\<close>

definition dsn :: "env \<Rightarrow> RegionConfig \<Rightarrow> string option" where
  "dsn e region = getenv e (env_key region)"

definition no_dsn :: "env \<Rightarrow> RegionConfig \<Rightarrow> bool" where
  "no_dsn e region = (dsn e region = None \<or> dsn e region = Some '''')"

text \<open>\<open>await asyncio.sleep(base + random.uniform(0, spread))\<close>.\<close>

definition sleep_jittered :: "rat \<Rightarrow> rat \<Rightarrow> state \<Rightarrow> state" where
  "sleep_jittered base spread s =
     (let (d, g) = random_uniform 0 spread (rng s)
      in s\<lparr>rng := g, trace := trace s @ [Sleep (base + d)]\<rparr>)"

text \<open>
  The step that both connection handlers share: the simulator in demo mode or
  without a connection string, the real test otherwise.
\<close>

definition connection_result_for ::
  "env \<Rightarrow> string \<Rightarrow> RegionConfig \<Rightarrow> state \<Rightarrow> ConnectionResult outcome \<times> state" where
  "connection_result_for e region_id region s =
     (if DEMO_MODE e \<or> no_dsn e region then
        (let (result, g) = simulate_connection region_id (rng s)
         in (Returned result, s\<lparr>rng := g, trace := trace s @ [SimulateConnection region_id]\<rparr>))
      else
        (test_connection e region_id, s\<lparr>trace := trace s @ [TestConnection region_id]\<rparr>))"

subsection \<open>api.py: test_region\<close>

definition test_region :: "env \<Rightarrow> state \<Rightarrow> string \<Rightarrow> request \<Rightarrow> response outcome \<times> state" where
  "test_region e s region_id req =
     (let user_key = user_key_of req
      in case map_of REGIONS region_id of
           None \<Rightarrow> (Returned (red_fragment ''Unknown region''), s)
         | Some region \<Rightarrow>
             if \<not> truthy (is_region_enabled e s region_id user_key) then
               (Returned (TemplateResponse ''partials/region_disabled.html'' (RegionCtx region)), s)
             else
               (case connection_result_for e region_id region
                       (sleep_jittered (3 / 10) (2 / 5) s) of
                  (Raised m, s') \<Rightarrow> (Raised m, s')
                | (Returned result, s') \<Rightarrow>
                    (Returned (TemplateResponse ''partials/connection_result.html''
                                (ConnectionCtx region result)), s')))"

subsection \<open>api.py: test_all_regions\<close>

text \<open>
  The key of the final sort, \<open>x[1].latency_ms if x[1].success else float('inf')\<close>: a
  finite latency, or the infinity that is above every one of them.
\<close>

datatype latency_key = Finite_key rat | Infinity

instantiation latency_key :: linorder
begin

fun less_eq_latency_key :: "latency_key \<Rightarrow> latency_key \<Rightarrow> bool" where
  "less_eq_latency_key (Finite_key a) (Finite_key b) = (a \<le> b)"
| "less_eq_latency_key (Finite_key a) Infinity = True"
| "less_eq_latency_key Infinity (Finite_key b) = False"
| "less_eq_latency_key Infinity Infinity = True"

definition less_latency_key :: "latency_key \<Rightarrow> latency_key \<Rightarrow> bool" where
  "less_latency_key x y = (x \<le> y \<and> \<not> y \<le> x)"

instance
proof
  fix x y z :: latency_key
  show "(x < y) = (x \<le> y \<and> \<not> y \<le> x)"
    by (simp add: less_latency_key_def)
  show "x \<le> x"
    by (cases x) simp_all
  show "x \<le> y \<Longrightarrow> y \<le> z \<Longrightarrow> x \<le> z"
    by (cases x; cases y; cases z) simp_all
  show "x \<le> y \<Longrightarrow> y \<le> x \<Longrightarrow> x = y"
    by (cases x; cases y) simp_all
  show "x \<le> y \<or> y \<le> x"
    by (cases x; cases y) auto
qed

end

definition latency_sort_key :: "string \<times> ConnectionResult \<Rightarrow> latency_key" where
  "latency_sort_key x = (if success (snd x) then Finite_key (latency_ms (snd x)) else Infinity)"

text \<open>\<open>str(KeyError(k))\<close>, what \<open>REGIONS[k]\<close> raises for a key that is not there.\<close>

definition key_error :: "string \<Rightarrow> string" where
  "key_error k = [CHR 0x27] @ k @ [CHR 0x27]"

text \<open>
  The loop \<open>for region_id in enabled\<close>: each region in turn, its result stored under
  its identifier before the next region is looked at.
\<close>

fun test_each ::
  "env \<Rightarrow> string list \<Rightarrow> (string \<times> ConnectionResult) list \<Rightarrow> state \<Rightarrow>
   (string \<times> ConnectionResult) list outcome \<times> state" where
  "test_each e [] results_dict s = (Returned results_dict, s)"
| "test_each e (region_id # rest) results_dict s =
     (case map_of REGIONS region_id of
        None \<Rightarrow> (Raised (key_error region_id), s)
      | Some region \<Rightarrow>
          (case connection_result_for e region_id region s of
             (Raised m, s') \<Rightarrow> (Raised m, s')
           | (Returned result, s') \<Rightarrow>
               test_each e rest (AList.update region_id result results_dict) s'))"

definition enabled_regions :: "env \<Rightarrow> state \<Rightarrow> string \<Rightarrow> string list" where
  "enabled_regions e s user_key =
     filter (\<lambda>rid. truthy (is_region_enabled e s rid user_key)) (map fst REGIONS)"

text \<open>
  \<open>sorted(results.items(), key=...)\<close> is a stable sort, as \<open>sort_key\<close> is.
\<close>

definition test_all_regions :: "env \<Rightarrow> state \<Rightarrow> request \<Rightarrow> response outcome \<times> state" where
  "test_all_regions e s req =
     (let user_key = user_key_of req;
          enabled = enabled_regions e s user_key
      in if enabled = [] then (Returned (amber_fragment ''No regions enabled''), s)
         else
           (case test_each e enabled [] (sleep_jittered (1 / 2) (1 / 2) s) of
              (Raised m, s') \<Rightarrow> (Raised m, s')
            | (Returned results_dict, s') \<Rightarrow>
                (Returned (TemplateResponse ''partials/all_results.html''
                            (AllResultsCtx (sort_key latency_sort_key results_dict) REGIONS)), s')))"

subsection \<open>api.py: region_health\<close>

definition region_health :: "env \<Rightarrow> state \<Rightarrow> string \<Rightarrow> request \<Rightarrow> response outcome \<times> state" where
  "region_health e s region_id req =
     (let user_key = user_key_of req
      in case map_of REGIONS region_id of
           None \<Rightarrow> (Returned (red_fragment ''Unknown region''), s)
         | Some region \<Rightarrow>
             if \<not> truthy (is_feature_enabled e s ''health-checks'' user_key) then
               (Returned (amber_fragment ''Health checks disabled''), s)
             else if \<not> truthy (is_region_enabled e s region_id user_key) then
               (Returned (amber_fragment ''Region disabled''), s)
             else
               (let s1 = sleep_jittered (1 / 5) (1 / 5) s;
                    (metrics, s2) =
                      (if DEMO_MODE e \<or> no_dsn e region then
                         (let (m, g) = simulate_health (rng s1)
                          in (Some m, s1\<lparr>rng := g, trace := trace s1 @ [SimulateHealth]\<rparr>))
                       else
                         (get_health_metrics e region_id,
                          s1\<lparr>trace := trace s1 @ [GetHealthMetrics region_id]\<rparr>))
                in case metrics of
                     None \<Rightarrow> (Returned (red_fragment ''Failed to fetch metrics''), s2)
                   | Some m \<Rightarrow>
                       (Returned (TemplateResponse ''partials/health_metrics.html''
                                   (MetricsCtx m)), s2)))"

subsection \<open>api.py: load_test\<close>

definition load_test :: "env \<Rightarrow> state \<Rightarrow> string \<Rightarrow> request \<Rightarrow> response outcome \<times> state" where
  "load_test e s region_id req =
     (let user_key = user_key_of req
      in case map_of REGIONS region_id of
           None \<Rightarrow> (Returned (red_fragment ''Unknown region''), s)
         | Some region \<Rightarrow>
             if \<not> truthy (is_feature_enabled e s ''load-testing'' user_key) then
               (Returned (amber_fragment ''Load testing disabled''), s)
             else if \<not> truthy (is_region_enabled e s region_id user_key) then
               (Returned (amber_fragment ''Region disabled''), s)
             else
               (let n = DEFAULTS_load_test_concurrent;
                    s1 = sleep_jittered (3 / 2) (1 / 2) s;
                    (result, s2) =
                      (if DEMO_MODE e \<or> no_dsn e region then
                         (let (r, g) = simulate_load_test region_id n (rng s1)
                          in (case r of Raised m \<Rightarrow> Raised m | Returned v \<Rightarrow> Returned (Some v),
                              s1\<lparr>rng := g, trace := trace s1 @ [SimulateLoadTest region_id n]\<rparr>))
                       else
                         (Returned (run_load_test e region_id n),
                          s1\<lparr>trace := trace s1 @ [RunLoadTest region_id n]\<rparr>))
                in case result of
                     Raised m \<Rightarrow> (Raised m, s2)
                   | Returned None \<Rightarrow> (Returned (red_fragment ''Load test failed''), s2)
                   | Returned (Some r) \<Rightarrow>
                       (Returned (TemplateResponse ''partials/load_test_result.html''
                                   (LoadTestCtx region r)), s2)))"

subsection \<open>api.py: toggle_flag\<close>

definition toggle_flag :: "env \<Rightarrow> state \<Rightarrow> string \<Rightarrow> request \<Rightarrow> response outcome \<times> state" where
  "toggle_flag e s flag_key req =
     (if \<not> DEMO_MODE e then (Returned (red_fragment ''Not in demo mode''), s)
      else
        (let (toggled, s') = toggle_demo_flag s flag_key
         in (Returned (TemplateResponse ''partials/flag_panel.html''
                        (FlagsCtx (get_demo_flags s'))), s')))"

subsection \<open>Example deployments\<close>

text \<open>
  Concrete inputs on which the handlers are evaluated below: a generator whose draws
  are all one half, a request without headers, the state of a fresh process, a demo
  deployment without any connection string, and a live deployment with three
  databases, the first of which lets every query time out
  (\<open>str(asyncio.TimeoutError())\<close> is the empty string).
\<close>

definition steady_rng :: "nat \<Rightarrow> rat" where
  "steady_rng = (\<lambda>n. 1 / 2)"

definition plain_request :: request where
  "plain_request = \<lparr>headers = (\<lambda>h. None)\<rparr>"

definition fresh_state :: state where
  "fresh_state = \<lparr>demo_flags = initial_demo_flags, rng = steady_rng, trace = []\<rparr>"

definition demo_env :: env where
  "demo_env =
     \<lparr>DEMO_MODE = True, getenv = (\<lambda>k. None), ld_client = None, pools = (\<lambda>r. None)\<rparr>"

definition healthy_conn :: "rat \<Rightarrow> conn" where
  "healthy_conn secs =
     \<lparr>fetchrow_info = Returned (Some
        \<lparr>row_server_ip = Some ''10.0.0.7'', row_server_port = Some 5432,
         row_backend_pid = Some 4242, row_database = Some ''defaultdb'',
         row_pg_version = Some ''PostgreSQL 16.2''\<rparr>),
      fetchrow_cache = Returned (Some \<lparr>row_cache_hit_ratio = Some (9912 / 100)\<rparr>),
      fetchrow_conns = Returned (Some
        \<lparr>row_active_connections = Some 7, row_max_connections = Some 100\<rparr>),
      fetchrow_size = Returned (Some \<lparr>row_db_size_mb = Some (123456 / 1000)\<rparr>),
      fetchval_select1 = Returned 1,
      release = Returned (),
      elapsed = secs\<rparr>"

definition healthy_pool :: "rat \<Rightarrow> pool" where
  "healthy_pool secs = \<lparr>acquire = (\<lambda>i. Returned (healthy_conn secs))\<rparr>"

text \<open>A database on which every query runs into the command timeout.\<close>

definition timing_out_conn :: conn where
  "timing_out_conn =
     \<lparr>fetchrow_info = Raised '''', fetchrow_cache = Raised '''', fetchrow_conns = Raised '''',
      fetchrow_size = Raised '''', fetchval_select1 = Raised '''', release = Returned (),
      elapsed = 5\<rparr>"

definition timing_out_pool :: pool where
  "timing_out_pool = \<lparr>acquire = (\<lambda>i. Returned timing_out_conn)\<rparr>"

text \<open>A pool on which every second acquisition fails.\<close>

definition flaky_pool :: pool where
  "flaky_pool =
     \<lparr>acquire = (\<lambda>i. if even i then Returned (healthy_conn (of_nat (i + 1) / 1000))
                       else Raised ''connection reset'')\<rparr>"

definition live_env :: env where
  "live_env =
     \<lparr>DEMO_MODE = False,
      getenv = (\<lambda>k. Some ''postgres://db''),
      ld_client = None,
      pools = (\<lambda>r. if r = ''us-east'' then Some timing_out_pool
                    else if r = ''eu-west'' then Some (healthy_pool (12 / 1000))
                    else if r = ''asia-pacific'' then Some (healthy_pool (48 / 1000))
                    else if r = ''flaky'' then Some flaky_pool
                    else None)\<rparr>"

text \<open>A live deployment in which no connection string is set.\<close>

definition unconfigured_env :: env where
  "unconfigured_env = live_env\<lparr>getenv := (\<lambda>k. None)\<rparr>"

text \<open>The fresh state after the flag of the first region has been switched off.\<close>

definition us_east_off :: state where
  "us_east_off = snd (toggle_demo_flag fresh_state ''region-us-east-enabled'')"

text \<open>The fresh state after the health-check feature has been switched off.\<close>

definition health_checks_off :: state where
  "health_checks_off = snd (toggle_demo_flag fresh_state ''enable-health-checks'')"

subsection \<open>api.py: the failure fragments\<close>

text \<open>
  The fragments with which the per-region handlers report that an operation failed,
  whatever the cause (\<open>if not metrics\<close>, \<open>if not result\<close>).
\<close>

definition generic_error_fragments :: "response list" where
  "generic_error_fragments =
     [red_fragment ''Failed to fetch metrics'', red_fragment ''Load test failed'']"

section \<open>Evaluation and rounding\<close>

lemmas example_defs =
  steady_rng_def plain_request_def fresh_state_def demo_env_def healthy_conn_def
  healthy_pool_def timing_out_conn_def timing_out_pool_def flaky_pool_def live_env_def
  unconfigured_env_def us_east_off_def initial_demo_flags_def REGIONS_def

lemma floor_rat_numeral_div [simp]:
  "\<lfloor>numeral a / numeral b :: rat\<rfloor> = numeral a div numeral b"
  by (metis floor_divide_of_int_eq of_int_numeral)

lemma floor_rat_minus_numeral_div [simp]:
  "\<lfloor>- (numeral a / numeral b) :: rat\<rfloor> = - numeral a div numeral b"
  by (metis divide_minus_left floor_divide_of_int_eq of_int_neg_numeral of_int_numeral)

lemma round_half_even_bounds:
  "\<lfloor>x\<rfloor> \<le> round_half_even x \<and> round_half_even x \<le> \<lceil>x\<rceil>"
proof -
  have "x - of_int \<lfloor>x\<rfloor> \<noteq> 0 \<Longrightarrow> \<lfloor>x\<rfloor> + 1 \<le> \<lceil>x\<rceil>"
    by linarith
  moreover have "\<lfloor>x\<rfloor> \<le> \<lceil>x\<rceil>" by linarith
  ultimately show ?thesis
    by (auto simp: round_half_even_def Let_def)
qed

lemma round_half_even_between:
  assumes "of_int lo \<le> x" and "x \<le> of_int hi"
  shows "lo \<le> round_half_even x \<and> round_half_even x \<le> hi"
proof -
  have "lo \<le> \<lfloor>x\<rfloor>" using assms(1) by (simp add: le_floor_iff)
  moreover have "\<lceil>x\<rceil> \<le> hi" using assms(2) by (simp add: ceiling_le_iff)
  ultimately show ?thesis
    using round_half_even_bounds [of x] by linarith
qed

text \<open>Rounding to hundredths never leaves an interval whose ends are hundredths.\<close>

lemma py_round2_between:
  assumes "of_int lo / 100 \<le> x" and "x \<le> of_int hi / 100"
  shows "of_int lo / 100 \<le> py_round2 x \<and> py_round2 x \<le> of_int hi / 100"
proof -
  have a: "of_int lo \<le> x * 100" using assms(1) by (simp add: field_simps)
  have b: "x * 100 \<le> of_int hi" using assms(2) by (simp add: field_simps)
  from round_half_even_between [OF a b]
  have "(of_int lo :: rat) \<le> of_int (round_half_even (x * 100))"
    and "(of_int (round_half_even (x * 100)) :: rat) \<le> of_int hi"
    by simp_all
  then show ?thesis
    by (simp add: py_round2_def divide_right_mono)
qed

lemma subscript_Returned_iff [simp]: "subscript x = Returned y \<longleftrightarrow> x = Some y"
  by (cases x) simp_all

section \<open>The flag store\<close>

lemma toggle_present_bool:
  "map_of (demo_flags s) k = Some (BoolV b) \<Longrightarrow>
   toggle_demo_flag s k = (True, s\<lparr>demo_flags := AList.update k (BoolV (\<not> b)) (demo_flags s)\<rparr>)"
  by (simp add: toggle_demo_flag_def)

text \<open>
  C4.  For a key of the store that holds a boolean, both toggles succeed and the second
  one gives back the original state: the same store (that flag and every other one, in
  the same order), and nothing else changed.
\<close>

theorem toggle_twice_restores:
  assumes "map_of (demo_flags s) k = Some (BoolV b)"
  shows "fst (toggle_demo_flag s k) \<and>
         fst (toggle_demo_flag (snd (toggle_demo_flag s k)) k) \<and>
         map_of (demo_flags (snd (toggle_demo_flag s k))) k = Some (BoolV (\<not> b)) \<and>
         snd (toggle_demo_flag (snd (toggle_demo_flag s k)) k) = s"
proof -
  let ?s1 = "s\<lparr>demo_flags := AList.update k (BoolV (\<not> b)) (demo_flags s)\<rparr>"
  have first: "toggle_demo_flag s k = (True, ?s1)"
    using assms by (rule toggle_present_bool)
  have look: "map_of (demo_flags ?s1) k = Some (BoolV (\<not> b))"
    by (simp add: update_conv')
  have second: "toggle_demo_flag ?s1 k =
      (True, ?s1\<lparr>demo_flags := AList.update k (BoolV (\<not> \<not> b)) (demo_flags ?s1)\<rparr>)"
    using look by (rule toggle_present_bool)
  have restored: "AList.update k (BoolV b) (demo_flags s) = demo_flags s"
    using assms by (rule update_triv)
  show ?thesis
    using look by (simp add: first second restored)
qed

theorem toggle_twice_restores_witness:
  "map_of (demo_flags \<lparr>demo_flags = initial_demo_flags, rng = (\<lambda>n. 0), trace = []\<rparr>)
      ''enable-load-testing'' = Some (BoolV True) \<and>
   snd (toggle_demo_flag
         (snd (toggle_demo_flag
                \<lparr>demo_flags = initial_demo_flags, rng = (\<lambda>n. 0), trace = []\<rparr>
                ''enable-load-testing''))
         ''enable-load-testing'')
     = \<lparr>demo_flags = initial_demo_flags, rng = (\<lambda>n. 0), trace = []\<rparr>"
proof -
  have h: "map_of (demo_flags \<lparr>demo_flags = initial_demo_flags, rng = (\<lambda>n. 0), trace = []\<rparr>)
      ''enable-load-testing'' = Some (BoolV True)"
    by (simp add: initial_demo_flags_def)
  show ?thesis
    using h toggle_twice_restores [OF h] by simp
qed

text \<open>
  C10.  A key that is absent, or whose value is not a boolean, is refused: the toggle
  returns \<open>False\<close> and the whole state is as before.  The handler ignores that
  answer: in demo mode it responds with the flag panel over the unchanged store.
  Outside demo mode it never calls the toggle and responds with the
  \<open>Not in demo mode\<close> fragment.
\<close>

theorem toggle_refused_keeps_store:
  assumes "map_of (demo_flags s) k = None \<or> (\<exists>n. map_of (demo_flags s) k = Some (IntV n))"
  shows "toggle_demo_flag s k = (False, s)
       \<and> (DEMO_MODE e \<longrightarrow>
            toggle_flag e s k req =
              (Returned (TemplateResponse ''partials/flag_panel.html'' (FlagsCtx (demo_flags s))), s))
       \<and> (\<not> DEMO_MODE e \<longrightarrow>
            toggle_flag e s k req = (Returned (red_fragment ''Not in demo mode''), s))"
proof -
  have refused: "toggle_demo_flag s k = (False, s)"
    using assms by (auto simp: toggle_demo_flag_def)
  then show ?thesis
    by (simp add: toggle_flag_def get_demo_flags_def)
qed

theorem toggle_refused_keeps_store_witness:
  "map_of (demo_flags fresh_state) ''dashboard-refresh-seconds'' = Some (IntV 30)
   \<and> toggle_demo_flag fresh_state ''dashboard-refresh-seconds'' = (False, fresh_state)
   \<and> toggle_flag demo_env fresh_state ''dashboard-refresh-seconds'' plain_request =
       (Returned (TemplateResponse ''partials/flag_panel.html''
                   (FlagsCtx (demo_flags fresh_state))), fresh_state)"
proof -
  have h: "map_of (demo_flags fresh_state) ''dashboard-refresh-seconds'' = Some (IntV 30)"
    by (simp add: example_defs)
  then have h': "map_of (demo_flags fresh_state) ''dashboard-refresh-seconds'' = None
      \<or> (\<exists>n. map_of (demo_flags fresh_state) ''dashboard-refresh-seconds'' = Some (IntV n))"
    by simp
  have demo: "DEMO_MODE demo_env"
    by (simp add: demo_env_def)
  show ?thesis
    using h demo
      toggle_refused_keeps_store [OF h', of demo_env plain_request]
    by simp
qed

text \<open>
  Outside demo mode the handler answers a request for an absent key with an error
  fragment, not with the flag panel.
\<close>

theorem toggle_flag_outside_demo_mode:
  "map_of (demo_flags fresh_state) ''no-such-flag'' = None
   \<and> \<not> DEMO_MODE live_env
   \<and> toggle_flag live_env fresh_state ''no-such-flag'' plain_request =
       (Returned (red_fragment ''Not in demo mode''), fresh_state)
   \<and> fst (toggle_flag live_env fresh_state ''no-such-flag'' plain_request) \<noteq>
       Returned (TemplateResponse ''partials/flag_panel.html''
                  (FlagsCtx (demo_flags fresh_state)))"
  by (simp add: toggle_flag_def example_defs red_fragment_def)

section \<open>The connection tester\<close>

lemma with_acquire_Returned_iff:
  "with_acquire p i body = Returned v \<longleftrightarrow>
     (\<exists>c. acquire p i = Returned c \<and> body c = Returned v \<and> release c = Returned ())"
  by (auto simp: with_acquire_def split: outcome.splits)

lemma test_connection_try_Returned_iff:
  "test_connection_try p = Returned r \<longleftrightarrow>
     (\<exists>c row. acquire p 0 = Returned c \<and> fetchrow_info c = Returned (Some row)
        \<and> release c = Returned ()
        \<and> r = \<lparr>success = True,
                 latency_ms = py_round2 (elapsed c * 1000),
                 server_ip = or_default (row_server_ip row) '''',
                 server_port = or_default (row_server_port row) 0,
                 backend_pid = or_default (row_backend_pid row) 0,
                 database = or_default (row_database row) '''',
                 pg_version = or_default (row_pg_version row) '''',
                 error = ''''\<rparr>)"
  (is "?lhs \<longleftrightarrow> ?rhs")
proof (rule iffI)
  assume ?lhs
  then show ?rhs
    by (auto simp: test_connection_try_def with_acquire_def split: outcome.splits option.splits)
next
  assume ?rhs
  then show ?lhs
    by (auto simp: test_connection_try_def with_acquire_def)
qed

lemma test_connection_returns: "\<exists>r. test_connection e rid = Returned r"
  by (simp add: test_connection_def split: option.split outcome.split)

text \<open>
  C5.  The connection tester always returns a result (nothing that the \<open>try\<close> block
  raises reaches the caller).  Without a pool the result is the failure with the text
  \<open>No connection pool available\<close>; when the block raises, it is the failure that
  carries the text of the exception, whatever that text is.  The result says
  \<open>success\<close> exactly when a connection was acquired, the query returned its row and
  the connection was given back.
\<close>

theorem connection_tester_never_raises:
  "\<exists>r. test_connection e rid = Returned r
     \<and> (get_pool e rid = None \<longrightarrow>
           r = failed_connection ''No connection pool available''
           \<and> \<not> success r \<and> error r = ''No connection pool available'' \<and> error r \<noteq> '''')
     \<and> (\<forall>p m. get_pool e rid = Some p \<and> test_connection_try p = Raised m \<longrightarrow>
           r = failed_connection m \<and> \<not> success r \<and> error r = m)
     \<and> (success r \<longleftrightarrow>
           (\<exists>p c row. get_pool e rid = Some p \<and> acquire p 0 = Returned c
              \<and> fetchrow_info c = Returned (Some row) \<and> release c = Returned ()))"
proof (cases "get_pool e rid")
  case None
  then show ?thesis
    by (simp add: test_connection_def failed_connection_def)
next
  case (Some p)
  show ?thesis
  proof (cases "test_connection_try p")
    case (Raised m)
    have "\<not> (\<exists>c row. acquire p 0 = Returned c \<and> fetchrow_info c = Returned (Some row)
              \<and> release c = Returned ())"
      using Raised test_connection_try_Returned_iff [of p] by (metis outcome.distinct(1))
    then show ?thesis
      using Some Raised by (simp add: test_connection_def failed_connection_def)
  next
    case (Returned r)
    then obtain c row where "acquire p 0 = Returned c" "fetchrow_info c = Returned (Some row)"
        "release c = Returned ()" "success r"
      using test_connection_try_Returned_iff [of p r] by auto
    then show ?thesis
      using Some Returned by (auto simp: test_connection_def)
  qed
qed

theorem connection_tester_never_raises_witness:
  "get_pool live_env ''nowhere'' = None
   \<and> get_pool live_env ''us-east'' = Some timing_out_pool
   \<and> test_connection_try timing_out_pool = Raised ''''
   \<and> (\<exists>r. test_connection live_env ''nowhere'' = Returned r
          \<and> \<not> success r \<and> error r = ''No connection pool available'')
   \<and> (\<exists>r. test_connection live_env ''us-east'' = Returned r \<and> \<not> success r)"
proof -
  have a: "get_pool live_env ''nowhere'' = None"
    by (simp add: get_pool_def example_defs)
  have b: "get_pool live_env ''us-east'' = Some timing_out_pool"
    by (simp add: get_pool_def example_defs)
  have c: "test_connection_try timing_out_pool = Raised ''''"
    by (simp add: test_connection_try_def with_acquire_def example_defs)
  show ?thesis
    using a b c
      connection_tester_never_raises [of live_env "''nowhere''"]
      connection_tester_never_raises [of live_env "''us-east''"]
    by auto
qed

text \<open>
  A query that times out raises an exception whose text is empty, and the failure
  carries that empty text.
\<close>

theorem connection_tester_empty_error:
  "get_pool live_env ''us-east'' = Some timing_out_pool
   \<and> acquire timing_out_pool 0 = Returned timing_out_conn
   \<and> fetchrow_info timing_out_conn = Raised ''''
   \<and> test_connection live_env ''us-east'' = Returned (failed_connection '''')
   \<and> \<not> success (failed_connection '''')
   \<and> error (failed_connection '''') = ''''"
  by (simp add: test_connection_def get_pool_def test_connection_try_def with_acquire_def
      failed_connection_def example_defs)

section \<open>The health metrics fetcher\<close>

lemma get_health_metrics_try_Returned_iff:
  "get_health_metrics_try p = Returned h \<longleftrightarrow>
     (\<exists>c cache cn sz. acquire p 0 = Returned c
        \<and> fetchrow_cache c = Returned (Some cache)
        \<and> fetchrow_conns c = Returned (Some cn)
        \<and> fetchrow_size c = Returned (Some sz)
        \<and> release c = Returned ()
        \<and> h = \<lparr>cache_hit_ratio = or_default (row_cache_hit_ratio cache) 0,
                 active_connections = or_default (row_active_connections cn) 0,
                 max_connections = or_default (row_max_connections cn) 0,
                 db_size_mb = py_round2 (or_default (row_db_size_mb sz) 0)\<rparr>)"
  (is "?lhs \<longleftrightarrow> ?rhs")
proof (rule iffI)
  assume ?lhs
  then show ?rhs
    by (auto simp: get_health_metrics_try_def with_acquire_def
        split: outcome.splits option.splits)
next
  assume ?rhs
  then show ?lhs
    by (auto simp: get_health_metrics_try_def with_acquire_def)
qed

text \<open>
  C6.  The fetcher returns a record exactly when there is a pool, a connection was
  acquired, each of the three queries returned its row and the connection was given
  back; the record is then the one built from those three rows (a NULL column
  counting as zero).  In every other case, whichever step failed, it returns
  \<open>None\<close>: no record holds the result of only some of the queries.
\<close>

theorem health_metrics_complete_or_nothing:
  "(get_health_metrics e rid = Some h \<longleftrightarrow>
     (\<exists>p c cache cn sz. get_pool e rid = Some p \<and> acquire p 0 = Returned c
        \<and> fetchrow_cache c = Returned (Some cache)
        \<and> fetchrow_conns c = Returned (Some cn)
        \<and> fetchrow_size c = Returned (Some sz)
        \<and> release c = Returned ()
        \<and> h = \<lparr>cache_hit_ratio = or_default (row_cache_hit_ratio cache) 0,
                 active_connections = or_default (row_active_connections cn) 0,
                 max_connections = or_default (row_max_connections cn) 0,
                 db_size_mb = py_round2 (or_default (row_db_size_mb sz) 0)\<rparr>))
   \<and> (get_health_metrics e rid = None \<longleftrightarrow>
        \<not> (\<exists>p c cache cn sz. get_pool e rid = Some p \<and> acquire p 0 = Returned c
              \<and> fetchrow_cache c = Returned (Some cache)
              \<and> fetchrow_conns c = Returned (Some cn)
              \<and> fetchrow_size c = Returned (Some sz)
              \<and> release c = Returned ()))"
proof (cases "get_pool e rid")
  case None
  then show ?thesis by (simp add: get_health_metrics_def)
next
  case (Some p)
  have some: "get_health_metrics e rid = Some h \<longleftrightarrow> get_health_metrics_try p = Returned h" for h
    using Some by (simp add: get_health_metrics_def split: outcome.split)
  have none: "get_health_metrics e rid = None \<longleftrightarrow> \<not> (\<exists>h. get_health_metrics_try p = Returned h)"
    using Some by (simp add: get_health_metrics_def split: outcome.split)
  show ?thesis
    unfolding some none get_health_metrics_try_Returned_iff using Some by auto
qed

theorem health_metrics_complete_or_nothing_witness:
  "get_health_metrics live_env ''eu-west'' =
     Some \<lparr>cache_hit_ratio = 9912 / 100, active_connections = 7, max_connections = 100,
           db_size_mb = 12346 / 100\<rparr>
   \<and> get_health_metrics live_env ''us-east'' = None
   \<and> get_health_metrics live_env ''nowhere'' = None"
proof -
  have "get_pool live_env ''eu-west'' = Some (healthy_pool (12 / 1000))
      \<and> acquire (healthy_pool (12 / 1000)) 0 = Returned (healthy_conn (12 / 1000))
      \<and> fetchrow_cache (healthy_conn (12 / 1000)) =
          Returned (Some \<lparr>row_cache_hit_ratio = Some (9912 / 100)\<rparr>)
      \<and> fetchrow_conns (healthy_conn (12 / 1000)) =
          Returned (Some \<lparr>row_active_connections = Some 7, row_max_connections = Some 100\<rparr>)
      \<and> fetchrow_size (healthy_conn (12 / 1000)) =
          Returned (Some \<lparr>row_db_size_mb = Some (123456 / 1000)\<rparr>)
      \<and> release (healthy_conn (12 / 1000)) = Returned ()"
    by (simp add: get_pool_def example_defs)
  then have "get_health_metrics live_env ''eu-west'' =
      Some \<lparr>cache_hit_ratio = or_default (Some (9912 / 100)) 0,
            active_connections = or_default (Some 7) 0,
            max_connections = or_default (Some 100) 0,
            db_size_mb = py_round2 (or_default (Some (123456 / 1000)) 0)\<rparr>"
    using health_metrics_complete_or_nothing [of live_env "''eu-west''"] by fastforce
  moreover have "py_round2 (123456 / 1000) = 12346 / 100"
    by (simp add: py_round2_def round_half_even_def Let_def)
  moreover have "get_health_metrics live_env ''us-east'' = None"
    by (simp add: get_health_metrics_def get_pool_def get_health_metrics_try_def
        with_acquire_def example_defs)
  moreover have "get_health_metrics live_env ''nowhere'' = None"
    by (simp add: get_health_metrics_def get_pool_def example_defs)
  ultimately show ?thesis by simp
qed

section \<open>The load tester\<close>

lemma length_valid_results: "length (valid_results os) \<le> length os"
  by (induction os rule: valid_results.induct) simp_all

lemma set_valid_results: "set (valid_results os) = {x. Returned x \<in> set os}"
  by (induction os rule: valid_results.induct) auto

lemma valid_results_none:
  "(\<And>x. Returned x \<notin> set os) \<Longrightarrow> valid_results os = []"
  using set_valid_results [of os] by simp

lemma length_gather_single_queries: "length (gather_single_queries p n) = nat n"
  by (simp add: gather_single_queries_def)

lemma py_min_Min: "xs \<noteq> [] \<Longrightarrow> py_min xs = Returned (Min (set xs))"
  by (cases xs) (simp_all add: Min.set_eq_fold [symmetric])

lemma py_max_Max: "xs \<noteq> [] \<Longrightarrow> py_max xs = Returned (Max (set xs))"
  by (cases xs) (simp_all add: Max.set_eq_fold [symmetric])

lemma run_load_test_try_cases:
  "run_load_test_try p n =
     (let valid = valid_results (gather_single_queries p n)
      in if valid = [] then Returned None
         else Returned (Some
                \<lparr>concurrent = n,
                 min_ms = py_round2 (Min (set valid)),
                 max_ms = py_round2 (Max (set valid)),
                 avg_ms = py_round2 (sum_list valid / of_nat (length valid)),
                 results = map py_round2 valid\<rparr>))"
  by (simp add: run_load_test_try_def Let_def py_min_Min py_max_Max py_mean_def)

lemma length_simulated_samples:
  "length (fst (simulated_samples base is g)) = length is"
  by (induction "is" arbitrary: g) (simp_all add: split_def Let_def)

lemma simulate_load_test_Returned:
  assumes "simulate_load_test rid n g = (Returned r, g')"
  shows "int (length (results r)) = n \<and> concurrent r = n \<and> results r \<noteq> []"
proof -
  let ?samples = "fst (simulated_samples (base_latency rid) [0 ..< nat n] g)"
  have len: "length ?samples = nat n"
    by (simp add: length_simulated_samples)
  have ne: "?samples \<noteq> []"
    using assms by (auto simp: simulate_load_test_def split_def Let_def)
  then have pos: "0 < n" using len by (cases "0 < n") auto
  have "results r = ?samples \<and> concurrent r = n"
    using assms ne
    by (auto simp: simulate_load_test_def split_def Let_def py_min_Min py_max_Max py_mean_def)
  then show ?thesis
    using len ne pos by simp
qed

lemma valid_results_map:
  "valid_results (map f js) =
     concat (map (\<lambda>i. case f i of Raised m \<Rightarrow> [] | Returned x \<Rightarrow> [x]) js)"
  by (induction js) (simp_all split: outcome.split)

lemma valid_results_some:
  assumes "Returned x \<in> set os"
  shows "valid_results os \<noteq> []"
  using assms set_valid_results [of os] by auto

lemma simulate_load_test_returns:
  assumes "0 < n"
  shows "\<exists>r. fst (simulate_load_test rid n g) = Returned r"
proof -
  let ?samples = "fst (simulated_samples (base_latency rid) [0 ..< nat n] g)"
  have "length ?samples = nat n"
    by (simp add: length_simulated_samples)
  then have "?samples \<noteq> []"
    using assms by auto
  then show ?thesis
    by (simp add: simulate_load_test_def split_def Let_def py_min_Min py_max_Max py_mean_def)
qed

text \<open>With a pool and at least one call that returns, the load test returns a result.\<close>

lemma run_load_test_some:
  assumes p: "get_pool e rid = Some p"
    and ex: "\<exists>i < nat n. \<exists>x. single_query p i = Returned x"
  shows "run_load_test e rid n =
           Some \<lparr>concurrent = n,
                 min_ms = py_round2 (Min (set (valid_results (gather_single_queries p n)))),
                 max_ms = py_round2 (Max (set (valid_results (gather_single_queries p n)))),
                 avg_ms = py_round2 (sum_list (valid_results (gather_single_queries p n))
                            / of_nat (length (valid_results (gather_single_queries p n)))),
                 results = map py_round2 (valid_results (gather_single_queries p n))\<rparr>"
proof -
  from ex obtain i x where "i < nat n" and "single_query p i = Returned x"
    by blast
  then have "Returned x \<in> set (gather_single_queries p n)"
    by (force simp: gather_single_queries_def)
  then have "valid_results (gather_single_queries p n) \<noteq> []"
    by (rule valid_results_some)
  then show ?thesis
    using p by (simp add: run_load_test_def run_load_test_try_cases Let_def)
qed

text \<open>
  C3.  Whatever the concurrency \<open>n\<close>.  The calls that count are exactly those of the
  \<open>n\<close> calls that return, in the order of the calls: the ones that raise are dropped.
  With a pool and at least one call that returns, \<open>run_load_test\<close> returns the result
  that holds the rounded latencies of those calls, with the minimum, the maximum and
  the average taken over them only, and that records \<open>n\<close>.  Conversely every result
  it returns is of that form, and so has at least one and at most \<open>n\<close> samples.  When
  every one of the \<open>n\<close> calls raises, or there is no pool, it returns \<open>None\<close>.  The
  simulated load test returns a result for every positive \<open>n\<close>, and a result of it has
  exactly \<open>n\<close> samples.
\<close>

theorem load_test_sample_count:
  "(\<forall>r. run_load_test e rid n = Some r \<longrightarrow>
      (\<exists>p. get_pool e rid = Some p
         \<and> valid_results (gather_single_queries p n) \<noteq> []
         \<and> results r = map py_round2 (valid_results (gather_single_queries p n))
         \<and> min_ms r = py_round2 (Min (set (valid_results (gather_single_queries p n))))
         \<and> max_ms r = py_round2 (Max (set (valid_results (gather_single_queries p n))))
         \<and> avg_ms r = py_round2 (sum_list (valid_results (gather_single_queries p n))
                                  / of_nat (length (valid_results (gather_single_queries p n)))))
      \<and> concurrent r = n
      \<and> int (length (results r)) \<le> n)
   \<and> (\<forall>p. get_pool e rid = Some p \<and> (\<forall>i < nat n. \<exists>m. single_query p i = Raised m) \<longrightarrow>
         run_load_test e rid n = None)
   \<and> (get_pool e rid = None \<longrightarrow> run_load_test e rid n = None)
   \<and> (\<forall>r g'. simulate_load_test rid n g = (Returned r, g') \<longrightarrow>
         int (length (results r)) = n \<and> concurrent r = n)
   \<and> (\<forall>p. get_pool e rid = Some p \<and> (\<exists>i < nat n. \<exists>x. single_query p i = Returned x) \<longrightarrow>
         run_load_test e rid n =
           Some \<lparr>concurrent = n,
                 min_ms = py_round2 (Min (set (valid_results (gather_single_queries p n)))),
                 max_ms = py_round2 (Max (set (valid_results (gather_single_queries p n)))),
                 avg_ms = py_round2 (sum_list (valid_results (gather_single_queries p n))
                            / of_nat (length (valid_results (gather_single_queries p n)))),
                 results = map py_round2 (valid_results (gather_single_queries p n))\<rparr>)
   \<and> (\<forall>p. valid_results (gather_single_queries p n) =
         concat (map (\<lambda>i. case single_query p i of Raised m \<Rightarrow> [] | Returned x \<Rightarrow> [x])
                   [0 ..< nat n]))
   \<and> (0 < n \<longrightarrow> (\<exists>r. fst (simulate_load_test rid n g) = Returned r))"
proof (intro conjI allI impI)
  fix r assume some: "run_load_test e rid n = Some r"
  then obtain p where p: "get_pool e rid = Some p"
    by (cases "get_pool e rid") (simp_all add: run_load_test_def)
  let ?valid = "valid_results (gather_single_queries p n)"
  have ne: "?valid \<noteq> []"
    using some p by (auto simp: run_load_test_def run_load_test_try_cases Let_def)
  have r: "r = \<lparr>concurrent = n, min_ms = py_round2 (Min (set ?valid)),
                max_ms = py_round2 (Max (set ?valid)),
                avg_ms = py_round2 (sum_list ?valid / of_nat (length ?valid)),
                results = map py_round2 ?valid\<rparr>"
    using some p ne by (simp add: run_load_test_def run_load_test_try_cases Let_def)
  show "\<exists>p. get_pool e rid = Some p
         \<and> valid_results (gather_single_queries p n) \<noteq> []
         \<and> results r = map py_round2 (valid_results (gather_single_queries p n))
         \<and> min_ms r = py_round2 (Min (set (valid_results (gather_single_queries p n))))
         \<and> max_ms r = py_round2 (Max (set (valid_results (gather_single_queries p n))))
         \<and> avg_ms r = py_round2 (sum_list (valid_results (gather_single_queries p n))
                                  / of_nat (length (valid_results (gather_single_queries p n))))"
    using p ne r by simp
  show "concurrent r = n" using r by simp
  have "length ?valid \<le> nat n"
    using length_valid_results [of "gather_single_queries p n"]
    by (simp add: length_gather_single_queries)
  moreover have "0 < length ?valid" using ne by simp
  ultimately have "int (length ?valid) \<le> n"
    by linarith
  then show "int (length (results r)) \<le> n"
    using r by simp
next
  fix p assume a: "get_pool e rid = Some p \<and> (\<forall>i < nat n. \<exists>m. single_query p i = Raised m)"
  have "Returned x \<notin> set (gather_single_queries p n)" for x
    using a by (auto simp: gather_single_queries_def)
  then have "valid_results (gather_single_queries p n) = []"
    by (rule valid_results_none)
  then show "run_load_test e rid n = None"
    using a by (simp add: run_load_test_def run_load_test_try_cases)
next
  assume "get_pool e rid = None"
  then show "run_load_test e rid n = None"
    by (simp add: run_load_test_def)
next
  fix r g' assume "simulate_load_test rid n g = (Returned r, g')"
  then show "int (length (results r)) = n" "concurrent r = n"
    using simulate_load_test_Returned by blast+
next
  fix p
  assume "get_pool e rid = Some p \<and> (\<exists>i < nat n. \<exists>x. single_query p i = Returned x)"
  then show "run_load_test e rid n =
           Some \<lparr>concurrent = n,
                 min_ms = py_round2 (Min (set (valid_results (gather_single_queries p n)))),
                 max_ms = py_round2 (Max (set (valid_results (gather_single_queries p n)))),
                 avg_ms = py_round2 (sum_list (valid_results (gather_single_queries p n))
                            / of_nat (length (valid_results (gather_single_queries p n)))),
                 results = map py_round2 (valid_results (gather_single_queries p n))\<rparr>"
    using run_load_test_some by blast
next
  fix p
  show "valid_results (gather_single_queries p n) =
         concat (map (\<lambda>i. case single_query p i of Raised m \<Rightarrow> [] | Returned x \<Rightarrow> [x])
                   [0 ..< nat n])"
    by (simp add: gather_single_queries_def valid_results_map)
next
  assume "0 < n"
  then show "\<exists>r. fst (simulate_load_test rid n g) = Returned r"
    by (rule simulate_load_test_returns)
qed


lemmas load_defs = run_load_test_def run_load_test_try_def gather_single_queries_def
  single_query_def with_acquire_def get_pool_def py_round2_def round_half_even_def
  py_mean_def Let_def

lemma upt3: "[0 ..< 3] = [0, 1, 2::nat]"
  by code_simp

theorem load_test_sample_count_witness:
  "get_pool live_env ''flaky'' = Some flaky_pool
   \<and> single_query flaky_pool 0 = Returned 1
   \<and> single_query flaky_pool 1 = Raised ''connection reset''
   \<and> single_query flaky_pool 2 = Returned 3
   \<and> valid_results (gather_single_queries flaky_pool 3) = [1, 3]
   \<and> run_load_test live_env ''flaky'' 3 =
       Some \<lparr>concurrent = 3, min_ms = 1, max_ms = 3, avg_ms = 2, results = [1, 3]\<rparr>
   \<and> int (length [1, 3 :: rat]) \<le> 3
   \<and> get_pool live_env ''us-east'' = Some timing_out_pool
   \<and> single_query timing_out_pool 0 = Raised ''''
   \<and> single_query timing_out_pool 1 = Raised ''''
   \<and> single_query timing_out_pool 2 = Raised ''''
   \<and> run_load_test live_env ''us-east'' 3 = None
   \<and> get_pool live_env ''nowhere'' = None
   \<and> run_load_test live_env ''nowhere'' 3 = None
   \<and> fst (simulate_load_test ''eu-west'' 3 steady_rng) =
       Returned \<lparr>concurrent = 3, min_ms = 265 / 2, max_ms = 271 / 2, avg_ms = 134,
                 results = [265 / 2, 134, 271 / 2]\<rparr>
   \<and> int (length [265 / 2, 134, 271 / 2 :: rat]) = 3"
proof -
  have flaky_pool: "get_pool live_env ''flaky'' = Some flaky_pool"
    by (simp add: get_pool_def example_defs)
  have calls: "single_query flaky_pool 0 = Returned 1"
    "single_query flaky_pool 1 = Raised ''connection reset''"
    "single_query flaky_pool 2 = Returned 3"
    by (simp_all add: load_defs example_defs)
  then have some_call: "\<exists>i < nat 3. \<exists>x. single_query flaky_pool i = Returned x"
    by (intro exI [of _ 0]) simp
  have survivors: "valid_results (gather_single_queries flaky_pool 3) = [1, 3]"
    using load_test_sample_count [of live_env "''flaky''" 3] calls
    by (simp add: upt3)
  have "run_load_test live_env ''flaky'' 3 =
      Some \<lparr>concurrent = 3,
            min_ms = py_round2 (Min (set (valid_results (gather_single_queries flaky_pool 3)))),
            max_ms = py_round2 (Max (set (valid_results (gather_single_queries flaky_pool 3)))),
            avg_ms = py_round2 (sum_list (valid_results (gather_single_queries flaky_pool 3))
                       / of_nat (length (valid_results (gather_single_queries flaky_pool 3)))),
            results = map py_round2 (valid_results (gather_single_queries flaky_pool 3))\<rparr>"
    using flaky_pool some_call load_test_sample_count [of live_env "''flaky''" 3] by blast
  then have flaky: "run_load_test live_env ''flaky'' 3 =
      Some \<lparr>concurrent = 3, min_ms = 1, max_ms = 3, avg_ms = 2, results = [1, 3]\<rparr>"
    by (simp add: survivors py_round2_def round_half_even_def Let_def)
  have pool: "get_pool live_env ''us-east'' = Some timing_out_pool"
    by (simp add: get_pool_def example_defs)
  have raised: "single_query timing_out_pool i = Raised ''''" for i
    by (simp add: load_defs example_defs)
  then have all_raised: "\<forall>i < nat 3. \<exists>m. single_query timing_out_pool i = Raised m"
    by blast
  have nowhere: "get_pool live_env ''nowhere'' = None"
    by (simp add: get_pool_def example_defs)
  have sim_returns: "\<exists>r. fst (simulate_load_test ''eu-west'' 3 steady_rng) = Returned r"
    using load_test_sample_count [of _ "''eu-west''" 3 steady_rng] by simp
  have sim: "fst (simulate_load_test ''eu-west'' 3 steady_rng) =
      Returned \<lparr>concurrent = 3, min_ms = 265 / 2, max_ms = 271 / 2, avg_ms = 134,
                results = [265 / 2, 134, 271 / 2]\<rparr>"
    by (simp add: simulate_load_test_def base_latency_def random_uniform_def split_def upt3
        load_defs example_defs)
  have "int (length (results \<lparr>concurrent = 3, min_ms = 1, max_ms = 3, avg_ms = 2,
                               results = [1, 3 :: rat]\<rparr>)) \<le> 3"
    using flaky load_test_sample_count [of live_env "''flaky''" 3] by blast
  moreover have "run_load_test live_env ''us-east'' 3 = None"
    using pool all_raised load_test_sample_count [of live_env "''us-east''" 3] by blast
  moreover have "run_load_test live_env ''nowhere'' 3 = None"
    using nowhere load_test_sample_count [of live_env "''nowhere''" 3] by blast
  moreover have "int (length (results \<lparr>concurrent = 3, min_ms = 265 / 2, max_ms = 271 / 2,
        avg_ms = 134, results = [265 / 2, 134, 271 / 2 :: rat]\<rparr>)) = 3"
    using sim load_test_sample_count [of _ "''eu-west''" 3 steady_rng]
    by (metis prod.collapse)
  ultimately show ?thesis
    using flaky_pool calls survivors flaky pool raised nowhere sim sim_returns by simp
qed

section \<open>The per-region test\<close>

lemma base_latency_int: "\<exists>b::int. base_latency rid = of_int b"
proof -
  have "base_latency rid = of_int 25 \<or> base_latency rid = of_int 120
      \<or> base_latency rid = of_int 180 \<or> base_latency rid = of_int 100"
    by (simp add: base_latency_def)
  then show ?thesis by blast
qed

lemma simulate_connection_success: "success (fst (simulate_connection rid g))"
  by (simp add: simulate_connection_def split_def Let_def)

lemma simulate_connection_band:
  assumes "0 \<le> g 0" and "g 0 \<le> 1"
  shows "base_latency rid - 10 \<le> latency_ms (fst (simulate_connection rid g))
       \<and> latency_ms (fst (simulate_connection rid g)) \<le> base_latency rid + 20"
proof -
  obtain b :: int where b: "base_latency rid = of_int b"
    using base_latency_int by blast
  let ?x = "base_latency rid + (- 10 + (20 - (- 10)) * g 0)"
  have lat: "latency_ms (fst (simulate_connection rid g)) = py_round2 ?x"
    by (simp add: simulate_connection_def random_uniform_def split_def Let_def)
  have lo: "of_int ((b - 10) * 100) / 100 \<le> ?x"
    using assms by (simp add: b)
  have hi: "?x \<le> of_int ((b + 20) * 100) / 100"
    using assms by (simp add: b)
  from py_round2_between [OF lo hi] show ?thesis
    by (simp add: lat b)
qed

text \<open>
  C7.  For a region of the registry whose flag evaluates to false, the per-region test
  handler returns the \<open>region_disabled\<close> partial for that region and leaves the state
  as it was: no call is added to the trace (no sleep, no simulator, no connection
  test) and no random draw is taken.
\<close>

theorem disabled_region_not_tested:
  assumes "map_of REGIONS rid = Some region"
    and "\<not> truthy (is_region_enabled e s rid (user_key_of req))"
  shows "test_region e s rid req =
           (Returned (TemplateResponse ''partials/region_disabled.html'' (RegionCtx region)), s)
       \<and> trace (snd (test_region e s rid req)) = trace s
       \<and> rng (snd (test_region e s rid req)) = rng s"
  using assms by (simp add: test_region_def)

theorem disabled_region_not_tested_witness:
  "map_of REGIONS ''us-east'' = Some (\<lparr>name = ''US East (Virginia)'', role = ''PRIMARY'',
         env_key = ''AIVEN_PG_US_EAST'', color = ''#10b981''\<rparr>)
   \<and> \<not> truthy (is_region_enabled live_env us_east_off ''us-east'' (user_key_of plain_request))
   \<and> test_region live_env us_east_off ''us-east'' plain_request =
       (Returned (TemplateResponse ''partials/region_disabled.html''
          (RegionCtx \<lparr>name = ''US East (Virginia)'', role = ''PRIMARY'',
         env_key = ''AIVEN_PG_US_EAST'', color = ''#10b981''\<rparr>)), us_east_off)
   \<and> trace us_east_off = []"
proof -
  have a: "map_of REGIONS ''us-east'' = Some (\<lparr>name = ''US East (Virginia)'', role = ''PRIMARY'',
         env_key = ''AIVEN_PG_US_EAST'', color = ''#10b981''\<rparr>)"
    by (simp add: REGIONS_def)
  have b: "\<not> truthy (is_region_enabled live_env us_east_off ''us-east'' (user_key_of plain_request))"
    by (simp add: is_region_enabled_def demo_flag_or_true_def toggle_demo_flag_def example_defs)
  have c: "trace us_east_off = []"
    by (simp add: toggle_demo_flag_def example_defs)
  show ?thesis
    using a b c disabled_region_not_tested [OF a b] by simp
qed

text \<open>
  An enabled region of the registry, on the other hand, is always slept for and then
  either simulated or tested, and the trace says which.
\<close>

lemma enabled_region_is_tested:
  assumes "map_of REGIONS rid = Some region"
    and "truthy (is_region_enabled e s rid (user_key_of req))"
  shows "trace (snd (test_region e s rid req)) =
           trace s @ [Sleep (3 / 10 + 2 / 5 * rng s 0),
                      if DEMO_MODE e \<or> no_dsn e region then SimulateConnection rid
                      else TestConnection rid]"
proof (cases "DEMO_MODE e \<or> no_dsn e region")
  case True
  then show ?thesis
    using assms
    by (simp add: test_region_def connection_result_for_def sleep_jittered_def
        random_uniform_def split_def Let_def)
next
  case False
  obtain r where "test_connection e rid = Returned r"
    using test_connection_returns by blast
  then show ?thesis
    using assms False
    by (simp add: test_region_def connection_result_for_def sleep_jittered_def
        random_uniform_def split_def Let_def)
qed

text \<open>
  C2.  For a region of the registry whose flag evaluates to true and whose connection
  string is not set, with every draw of the generator in \<open>[0, 1)\<close>: the handler sleeps,
  then calls the simulator and nothing else (in demo mode or not), and responds with
  the simulator's result, which says \<open>success\<close> and has a latency between the region's
  baseline minus 10 and plus 20.
\<close>

theorem unconfigured_region_simulated:
  assumes "map_of REGIONS rid = Some region"
    and "truthy (is_region_enabled e s rid (user_key_of req))"
    and "getenv e (env_key region) = None"
    and "\<forall>n. 0 \<le> rng s n \<and> rng s n < 1"
  shows "\<exists>result s'.
           test_region e s rid req =
             (Returned (TemplateResponse ''partials/connection_result.html''
                         (ConnectionCtx region result)), s')
         \<and> result = fst (simulate_connection rid (\<lambda>n. rng s (Suc n)))
         \<and> trace s' = trace s @ [Sleep (3 / 10 + 2 / 5 * rng s 0), SimulateConnection rid]
         \<and> success result
         \<and> base_latency rid - 10 \<le> latency_ms result
         \<and> latency_ms result \<le> base_latency rid + 20"
proof -
  let ?g = "\<lambda>n. rng s (Suc n)"
  have nodsn: "no_dsn e region"
    using assms(3) by (simp add: no_dsn_def dsn_def)
  have run: "test_region e s rid req =
      (Returned (TemplateResponse ''partials/connection_result.html''
                  (ConnectionCtx region (fst (simulate_connection rid ?g)))),
       s\<lparr>rng := snd (simulate_connection rid ?g),
         trace := trace s @ [Sleep (3 / 10 + 2 / 5 * rng s 0), SimulateConnection rid]\<rparr>)"
    using assms(1,2) nodsn
    by (simp add: test_region_def connection_result_for_def sleep_jittered_def
        random_uniform_def split_def Let_def)
  have "0 \<le> ?g 0" and "?g 0 \<le> 1"
    using assms(4) by (simp_all add: less_imp_le)
  then have band: "base_latency rid - 10 \<le> latency_ms (fst (simulate_connection rid ?g))
      \<and> latency_ms (fst (simulate_connection rid ?g)) \<le> base_latency rid + 20"
    by (rule simulate_connection_band)
  show ?thesis
    using run band simulate_connection_success [of rid ?g] by simp
qed

theorem unconfigured_region_simulated_witness:
  "map_of REGIONS ''eu-west'' = Some \<lparr>name = ''EU West (Ireland)'', role = ''REPLICA'',
         env_key = ''AIVEN_PG_EU_WEST'', color = ''#3b82f6''\<rparr>
   \<and> truthy (is_region_enabled unconfigured_env fresh_state ''eu-west'' (user_key_of plain_request))
   \<and> getenv unconfigured_env ''AIVEN_PG_EU_WEST'' = None
   \<and> (\<exists>result s'.
         test_region unconfigured_env fresh_state ''eu-west'' plain_request =
           (Returned (TemplateResponse ''partials/connection_result.html''
              (ConnectionCtx \<lparr>name = ''EU West (Ireland)'', role = ''REPLICA'',
                 env_key = ''AIVEN_PG_EU_WEST'', color = ''#3b82f6''\<rparr> result)), s')
         \<and> trace s' = [Sleep (1 / 2), SimulateConnection ''eu-west'']
         \<and> success result \<and> 110 \<le> latency_ms result \<and> latency_ms result \<le> 140)"
proof -
  let ?region = "\<lparr>name = ''EU West (Ireland)'', role = ''REPLICA'',
         env_key = ''AIVEN_PG_EU_WEST'', color = ''#3b82f6''\<rparr>"
  have a: "map_of REGIONS ''eu-west'' = Some ?region"
    by (simp add: REGIONS_def)
  have b: "truthy (is_region_enabled unconfigured_env fresh_state ''eu-west''
             (user_key_of plain_request))"
    by (simp add: is_region_enabled_def demo_flag_or_true_def example_defs)
  have c: "getenv unconfigured_env (env_key ?region) = None"
    by (simp add: example_defs)
  have d: "\<forall>n. 0 \<le> rng fresh_state n \<and> rng fresh_state n < 1"
    by (simp add: example_defs)
  have e: "base_latency ''eu-west'' = 120" "rng fresh_state 0 = 1 / 2" "trace fresh_state = []"
    by (simp_all add: base_latency_def example_defs)
  show ?thesis
    using a b c unconfigured_region_simulated [OF a b c d]
    by (simp add: e) blast
qed

text \<open>
  A region without a connection string whose flag is off is not simulated either: the
  handler returns the \<open>region_disabled\<close> partial and no connection result.
\<close>

theorem disabled_unconfigured_region:
  "map_of REGIONS ''us-east'' = Some \<lparr>name = ''US East (Virginia)'', role = ''PRIMARY'',
         env_key = ''AIVEN_PG_US_EAST'', color = ''#10b981''\<rparr>
   \<and> getenv unconfigured_env ''AIVEN_PG_US_EAST'' = None
   \<and> test_region unconfigured_env us_east_off ''us-east'' plain_request =
       (Returned (TemplateResponse ''partials/region_disabled.html''
          (RegionCtx \<lparr>name = ''US East (Virginia)'', role = ''PRIMARY'',
             env_key = ''AIVEN_PG_US_EAST'', color = ''#10b981''\<rparr>)), us_east_off)
   \<and> trace us_east_off = []"
  by (simp add: test_region_def is_region_enabled_def demo_flag_or_true_def
      toggle_demo_flag_def user_key_of_def example_defs)

section \<open>The all-regions test\<close>

lemma latency_key_success_le:
  assumes "latency_sort_key x \<le> latency_sort_key y" and "success (snd x)" and "success (snd y)"
  shows "latency_ms (snd x) \<le> latency_ms (snd y)"
  using assms by (simp add: latency_sort_key_def)

lemma latency_key_failed_le:
  assumes "latency_sort_key x \<le> latency_sort_key y" and "\<not> success (snd x)"
  shows "\<not> success (snd y)"
  using assms by (cases "success (snd y)") (simp_all add: latency_sort_key_def)

lemma all_results_are_sorted:
  assumes "test_all_regions e s req = (Returned (TemplateResponse t (AllResultsCtx rs regions)), s')"
  shows "\<exists>results_dict. rs = sort_key latency_sort_key results_dict"
  using assms
  by (auto simp: test_all_regions_def Let_def amber_fragment_def
      split: if_splits prod.splits outcome.splits)

text \<open>
  C1.  Whenever the all-regions handler returns its list of results, the list is sorted
  by the key that is the latency of a successful result and infinity for a failed
  one.  Spelled out: of two successful results the earlier one has the smaller or
  equal latency, and no successful result comes after a failed one.
\<close>

theorem all_regions_sorted_by_latency:
  assumes "test_all_regions e s req =
             (Returned (TemplateResponse t (AllResultsCtx rs regions)), s')"
  shows "sorted (map latency_sort_key rs)
       \<and> (\<forall>i j. i < j \<and> j < length rs \<and> success (snd (rs ! i)) \<and> success (snd (rs ! j)) \<longrightarrow>
             latency_ms (snd (rs ! i)) \<le> latency_ms (snd (rs ! j)))
       \<and> (\<forall>i j. i < j \<and> j < length rs \<and> \<not> success (snd (rs ! i)) \<longrightarrow>
             \<not> success (snd (rs ! j)))"
proof -
  obtain results_dict where "rs = sort_key latency_sort_key results_dict"
    using all_results_are_sorted [OF assms] by blast
  then have sorted: "sorted (map latency_sort_key rs)"
    by simp
  have le: "latency_sort_key (rs ! i) \<le> latency_sort_key (rs ! j)"
    if "i < j" and "j < length rs" for i j
    using sorted that sorted_nth_mono [of "map latency_sort_key rs" i j] by simp
  show ?thesis
    using sorted le latency_key_success_le latency_key_failed_le by blast
qed

lemmas all_regions_eval =
  test_all_regions_def enabled_regions_def is_region_enabled_def demo_flag_or_true_def
  user_key_of_def sleep_jittered_def random_uniform_def connection_result_for_def
  no_dsn_def dsn_def test_connection_def get_pool_def test_connection_try_def
  with_acquire_def py_round2_def round_half_even_def Let_def failed_connection_def
  latency_sort_key_def

lemma live_all_regions:
  "test_all_regions live_env fresh_state plain_request =
    (Returned
      (TemplateResponse ''partials/all_results.html''
        (AllResultsCtx
          [(''eu-west'',
            \<lparr>success = True, latency_ms = 12, server_ip = ''10.0.0.7'', server_port = 5432,
             backend_pid = 4242, database = ''defaultdb'', pg_version = ''PostgreSQL 16.2'',
             error = ''''\<rparr>),
           (''asia-pacific'',
            \<lparr>success = True, latency_ms = 48, server_ip = ''10.0.0.7'', server_port = 5432,
             backend_pid = 4242, database = ''defaultdb'', pg_version = ''PostgreSQL 16.2'',
             error = ''''\<rparr>),
           (''us-east'', failed_connection '''')]
          REGIONS)),
     fresh_state\<lparr>trace :=
       [Sleep (3 / 4), TestConnection ''us-east'', TestConnection ''eu-west'',
        TestConnection ''asia-pacific'']\<rparr>)"
  by (simp add: all_regions_eval example_defs)

theorem all_regions_sorted_by_latency_witness:
  "test_all_regions live_env fresh_state plain_request =
    (Returned
      (TemplateResponse ''partials/all_results.html''
        (AllResultsCtx
          [(''eu-west'',
            \<lparr>success = True, latency_ms = 12, server_ip = ''10.0.0.7'', server_port = 5432,
             backend_pid = 4242, database = ''defaultdb'', pg_version = ''PostgreSQL 16.2'',
             error = ''''\<rparr>),
           (''asia-pacific'',
            \<lparr>success = True, latency_ms = 48, server_ip = ''10.0.0.7'', server_port = 5432,
             backend_pid = 4242, database = ''defaultdb'', pg_version = ''PostgreSQL 16.2'',
             error = ''''\<rparr>),
           (''us-east'', failed_connection '''')]
          REGIONS)),
     fresh_state\<lparr>trace :=
       [Sleep (3 / 4), TestConnection ''us-east'', TestConnection ''eu-west'',
        TestConnection ''asia-pacific'']\<rparr>)
   \<and> sorted (map latency_sort_key
        [(''eu-west'',
            \<lparr>success = True, latency_ms = 12, server_ip = ''10.0.0.7'', server_port = 5432,
             backend_pid = 4242, database = ''defaultdb'', pg_version = ''PostgreSQL 16.2'',
             error = ''''\<rparr>),
           (''asia-pacific'',
            \<lparr>success = True, latency_ms = 48, server_ip = ''10.0.0.7'', server_port = 5432,
             backend_pid = 4242, database = ''defaultdb'', pg_version = ''PostgreSQL 16.2'',
             error = ''''\<rparr>),
           (''us-east'', failed_connection '''')])"
  using live_all_regions all_regions_sorted_by_latency [OF live_all_regions]
  by blast

lemma connection_result_for_returns:
  "\<exists>r s'. connection_result_for e rid region s = (Returned r, s')"
  using test_connection_returns [of e rid]
  by (auto simp: connection_result_for_def split_def Let_def)

lemma test_each_keys:
  assumes "set rids \<subseteq> fst ` set REGIONS" and "distinct rids"
    and "set rids \<inter> fst ` set acc = {}"
  shows "\<exists>res s'. test_each e rids acc s = (Returned res, s')
           \<and> map fst res = map fst acc @ rids"
  using assms
proof (induction rids arbitrary: acc s)
  case Nil
  then show ?case by simp
next
  case (Cons rid rest)
  from Cons.prems(1) obtain region where region: "map_of REGIONS rid = Some region"
    by (cases "map_of REGIONS rid") (auto simp: map_of_eq_None_iff)
  obtain r s1 where step: "connection_result_for e rid region s = (Returned r, s1)"
    using connection_result_for_returns by blast
  have fresh: "rid \<notin> fst ` set acc"
    using Cons.prems(3) by auto
  then have keys: "map fst (AList.update rid r acc) = map fst acc @ [rid]"
    by (simp add: update_keys)
  have "set rest \<inter> fst ` set (AList.update rid r acc) = {}"
    using Cons.prems(2,3) by (auto simp: dom_update)
  moreover have "set rest \<subseteq> fst ` set REGIONS" and "distinct rest"
    using Cons.prems(1,2) by auto
  ultimately obtain res s' where
    "test_each e rest (AList.update rid r acc) s1 = (Returned res, s')"
    "map fst res = map fst (AList.update rid r acc) @ rest"
    using Cons.IH by blast
  then show ?case
    using region step keys by simp
qed

lemma distinct_map_sort_key:
  assumes "distinct (map f xs)"
  shows "distinct (map f (sort_key k xs))"
proof -
  have "card (f ` set xs) = length xs"
    using distinct_card [OF assms] by simp
  then have "card (set (map f (sort_key k xs))) = length (map f (sort_key k xs))"
    by simp
  then show ?thesis
    by (rule card_distinct)
qed

lemma distinct_enabled_regions: "distinct (enabled_regions e s u)"
  by (simp add: enabled_regions_def REGIONS_def)

lemma enabled_regions_known: "set (enabled_regions e s u) \<subseteq> fst ` set REGIONS"
  by (auto simp: enabled_regions_def)

text \<open>
  Every enabled region contributes exactly one result, whatever the other regions
  answer: the handler never raises, and the identifiers in its list are those of the
  enabled regions, each once.
\<close>

lemma all_regions_one_result_each:
  assumes "enabled_regions e s (user_key_of req) \<noteq> []"
  shows "\<exists>rs s'. test_all_regions e s req =
             (Returned (TemplateResponse ''partials/all_results.html''
                         (AllResultsCtx rs REGIONS)), s')
           \<and> distinct (map fst rs)
           \<and> set (map fst rs) = set (enabled_regions e s (user_key_of req))
           \<and> length rs = length (enabled_regions e s (user_key_of req))"
proof -
  let ?enabled = "enabled_regions e s (user_key_of req)"
  have "\<exists>res s'. test_each e ?enabled [] (sleep_jittered (1 / 2) (1 / 2) s) = (Returned res, s')
           \<and> map fst res = ?enabled"
    using test_each_keys [where rids = ?enabled and acc = "[]" and e = e
        and s = "sleep_jittered (1 / 2) (1 / 2) s"]
    by (simp add: enabled_regions_known distinct_enabled_regions)
  then obtain res s' where
    run: "test_each e ?enabled [] (sleep_jittered (1 / 2) (1 / 2) s) = (Returned res, s')"
    and keys: "map fst res = ?enabled"
    by auto
  have "distinct (map fst res)"
    using keys distinct_enabled_regions by simp
  then have "distinct (map fst (sort_key latency_sort_key res))"
    by (rule distinct_map_sort_key)
  moreover have "set (map fst (sort_key latency_sort_key res)) = set ?enabled"
    using keys by (metis set_map set_sort)
  moreover have "length (sort_key latency_sort_key res) = length ?enabled"
    using keys by (metis length_map length_sort)
  ultimately show ?thesis
    using assms run by (simp add: test_all_regions_def Let_def)
qed

text \<open>
  C9.  The regions are not tested concurrently.  The handler has no task gathering:
  its loop awaits the test of one region before it turns to the next, so the calls
  are made one after another in the order of the registry, each in the state the
  previous one has left.  On the live deployment with three databases the first call,
  which waits for its query to time out, is made and finished before the other two
  regions are tested.
\<close>

theorem all_regions_tested_in_turn:
  "trace (snd (test_all_regions live_env fresh_state plain_request)) =
     [Sleep (3 / 4), TestConnection ''us-east'', TestConnection ''eu-west'',
      TestConnection ''asia-pacific'']
   \<and> test_each live_env [''us-east'', ''eu-west'', ''asia-pacific''] [] fresh_state =
       test_each live_env [''eu-west'', ''asia-pacific'']
         [(''us-east'', failed_connection '''')]
         (fresh_state\<lparr>trace := [TestConnection ''us-east'']\<rparr>)"
  by (simp add: all_regions_eval example_defs)

section \<open>Messages of the per-region handlers\<close>

lemma unknown_region_responses:
  assumes "map_of REGIONS rid = None"
  shows "test_region e s rid req = (Returned (red_fragment ''Unknown region''), s)"
    and "region_health e s rid req = (Returned (red_fragment ''Unknown region''), s)"
    and "load_test e s rid req = (Returned (red_fragment ''Unknown region''), s)"
  using assms by (simp_all add: test_region_def region_health_def load_test_def)

lemma disabled_feature_responses:
  assumes "map_of REGIONS rid = Some region"
  shows "\<not> truthy (is_feature_enabled e s ''health-checks'' (user_key_of req)) \<Longrightarrow>
           region_health e s rid req = (Returned (amber_fragment ''Health checks disabled''), s)"
    and "\<not> truthy (is_feature_enabled e s ''load-testing'' (user_key_of req)) \<Longrightarrow>
           load_test e s rid req = (Returned (amber_fragment ''Load testing disabled''), s)"
  using assms by (simp_all add: region_health_def load_test_def)

lemma disabled_region_responses:
  assumes "map_of REGIONS rid = Some region"
    and "\<not> truthy (is_region_enabled e s rid (user_key_of req))"
  shows "test_region e s rid req =
           (Returned (TemplateResponse ''partials/region_disabled.html'' (RegionCtx region)), s)"
    and "truthy (is_feature_enabled e s ''health-checks'' (user_key_of req)) \<Longrightarrow>
           region_health e s rid req = (Returned (amber_fragment ''Region disabled''), s)"
    and "truthy (is_feature_enabled e s ''load-testing'' (user_key_of req)) \<Longrightarrow>
           load_test e s rid req = (Returned (amber_fragment ''Region disabled''), s)"
  using assms by (simp_all add: test_region_def region_health_def load_test_def)

lemma no_dsn_responses:
  assumes "map_of REGIONS rid = Some region"
    and "truthy (is_region_enabled e s rid (user_key_of req))"
    and "no_dsn e region"
  shows "\<exists>result. fst (test_region e s rid req) =
           Returned (TemplateResponse ''partials/connection_result.html''
                      (ConnectionCtx region result))"
    and "truthy (is_feature_enabled e s ''health-checks'' (user_key_of req)) \<Longrightarrow>
         \<exists>metrics. fst (region_health e s rid req) =
           Returned (TemplateResponse ''partials/health_metrics.html'' (MetricsCtx metrics))"
    and "truthy (is_feature_enabled e s ''load-testing'' (user_key_of req)) \<Longrightarrow>
         \<exists>result. fst (load_test e s rid req) =
           Returned (TemplateResponse ''partials/load_test_result.html''
                      (LoadTestCtx region result))"
proof -
  show "\<exists>result. fst (test_region e s rid req) =
           Returned (TemplateResponse ''partials/connection_result.html''
                      (ConnectionCtx region result))"
    using assms
    by (simp add: test_region_def connection_result_for_def split_def Let_def)
  show "\<exists>metrics. fst (region_health e s rid req) =
           Returned (TemplateResponse ''partials/health_metrics.html'' (MetricsCtx metrics))"
    if "truthy (is_feature_enabled e s ''health-checks'' (user_key_of req))"
    using assms that
    by (simp add: region_health_def split_def Let_def)
  show "\<exists>result. fst (load_test e s rid req) =
           Returned (TemplateResponse ''partials/load_test_result.html''
                      (LoadTestCtx region result))"
    if on: "truthy (is_feature_enabled e s ''load-testing'' (user_key_of req))"
  proof -
    let ?g = "rng (sleep_jittered (3 / 2) (1 / 2) s)"
    obtain r where r: "fst (simulate_load_test rid DEFAULTS_load_test_concurrent ?g) = Returned r"
      using simulate_load_test_returns [of DEFAULTS_load_test_concurrent rid ?g]
      by (auto simp: DEFAULTS_load_test_concurrent_def)
    show ?thesis
      using assms on r
      by (simp add: load_test_def split_def Let_def)
  qed
qed

text \<open>
  C8.  What the three per-region handlers answer in each condition.  An identifier that
  is not in the registry gets the \<open>Unknown region\<close> fragment from all three.  For a
  region of the registry: a disabled feature gets \<open>Health checks disabled\<close> or
  \<open>Load testing disabled\<close> (the connection test has no feature flag); a disabled
  region gets the \<open>region_disabled\<close> partial from the connection test and the
  \<open>Region disabled\<close> fragment from the other two; an enabled region without a
  connection string gets no message but the partial with simulated data.  These
  responses are pairwise different, and none of them is one of the fragments that
  report a failure without its cause.
\<close>

theorem conditions_answered_differently:
  "(map_of REGIONS rid = None \<longrightarrow>
       fst (test_region e s rid req) = Returned (red_fragment ''Unknown region'')
     \<and> fst (region_health e s rid req) = Returned (red_fragment ''Unknown region'')
     \<and> fst (load_test e s rid req) = Returned (red_fragment ''Unknown region''))
   \<and> (\<forall>region. map_of REGIONS rid = Some region \<longrightarrow>
       (\<not> truthy (is_feature_enabled e s ''health-checks'' (user_key_of req)) \<longrightarrow>
          fst (region_health e s rid req) = Returned (amber_fragment ''Health checks disabled''))
     \<and> (\<not> truthy (is_feature_enabled e s ''load-testing'' (user_key_of req)) \<longrightarrow>
          fst (load_test e s rid req) = Returned (amber_fragment ''Load testing disabled''))
     \<and> (\<not> truthy (is_region_enabled e s rid (user_key_of req)) \<longrightarrow>
          fst (test_region e s rid req) =
            Returned (TemplateResponse ''partials/region_disabled.html'' (RegionCtx region))
        \<and> (truthy (is_feature_enabled e s ''health-checks'' (user_key_of req)) \<longrightarrow>
             fst (region_health e s rid req) = Returned (amber_fragment ''Region disabled''))
        \<and> (truthy (is_feature_enabled e s ''load-testing'' (user_key_of req)) \<longrightarrow>
             fst (load_test e s rid req) = Returned (amber_fragment ''Region disabled'')))
     \<and> (truthy (is_region_enabled e s rid (user_key_of req)) \<and> no_dsn e region \<longrightarrow>
          (\<exists>result. fst (test_region e s rid req) =
             Returned (TemplateResponse ''partials/connection_result.html''
                        (ConnectionCtx region result)))
        \<and> (truthy (is_feature_enabled e s ''health-checks'' (user_key_of req)) \<longrightarrow>
             (\<exists>metrics. fst (region_health e s rid req) =
                Returned (TemplateResponse ''partials/health_metrics.html''
                           (MetricsCtx metrics))))
        \<and> (truthy (is_feature_enabled e s ''load-testing'' (user_key_of req)) \<longrightarrow>
             (\<exists>result. fst (load_test e s rid req) =
                Returned (TemplateResponse ''partials/load_test_result.html''
                           (LoadTestCtx region result))))))
   \<and> distinct [red_fragment ''Unknown region'',
               amber_fragment ''Health checks disabled'',
               amber_fragment ''Load testing disabled'',
               amber_fragment ''Region disabled'',
               TemplateResponse ''partials/region_disabled.html'' (RegionCtx r1),
               TemplateResponse ''partials/connection_result.html'' (ConnectionCtx r2 result),
               TemplateResponse ''partials/health_metrics.html'' (MetricsCtx metrics),
               TemplateResponse ''partials/load_test_result.html'' (LoadTestCtx r3 load)]
   \<and> set [red_fragment ''Unknown region'',
            amber_fragment ''Health checks disabled'',
            amber_fragment ''Load testing disabled'',
            amber_fragment ''Region disabled'',
            TemplateResponse ''partials/region_disabled.html'' (RegionCtx r1),
            TemplateResponse ''partials/connection_result.html'' (ConnectionCtx r2 result),
            TemplateResponse ''partials/health_metrics.html'' (MetricsCtx metrics),
            TemplateResponse ''partials/load_test_result.html'' (LoadTestCtx r3 load)]
       \<inter> set generic_error_fragments = {}"
proof (intro conjI allI impI)
  show "distinct [red_fragment ''Unknown region'',
               amber_fragment ''Health checks disabled'',
               amber_fragment ''Load testing disabled'',
               amber_fragment ''Region disabled'',
               TemplateResponse ''partials/region_disabled.html'' (RegionCtx r1),
               TemplateResponse ''partials/connection_result.html'' (ConnectionCtx r2 result),
               TemplateResponse ''partials/health_metrics.html'' (MetricsCtx metrics),
               TemplateResponse ''partials/load_test_result.html'' (LoadTestCtx r3 load)]"
    by (simp add: red_fragment_def amber_fragment_def)
  show "set [red_fragment ''Unknown region'',
            amber_fragment ''Health checks disabled'',
            amber_fragment ''Load testing disabled'',
            amber_fragment ''Region disabled'',
            TemplateResponse ''partials/region_disabled.html'' (RegionCtx r1),
            TemplateResponse ''partials/connection_result.html'' (ConnectionCtx r2 result),
            TemplateResponse ''partials/health_metrics.html'' (MetricsCtx metrics),
            TemplateResponse ''partials/load_test_result.html'' (LoadTestCtx r3 load)]
       \<inter> set generic_error_fragments = {}"
    by (simp add: generic_error_fragments_def red_fragment_def amber_fragment_def)
qed (simp_all add: unknown_region_responses disabled_feature_responses
       disabled_region_responses no_dsn_responses)

theorem conditions_answered_differently_witness:
  "map_of REGIONS ''mars'' = None
   \<and> fst (region_health live_env fresh_state ''mars'' plain_request) =
       Returned (red_fragment ''Unknown region'')
   \<and> \<not> truthy (is_feature_enabled demo_env health_checks_off ''health-checks''
                (user_key_of plain_request))
   \<and> fst (region_health demo_env health_checks_off ''eu-west'' plain_request) =
       Returned (amber_fragment ''Health checks disabled'')
   \<and> \<not> truthy (is_region_enabled live_env us_east_off ''us-east'' (user_key_of plain_request))
   \<and> truthy (is_feature_enabled live_env us_east_off ''health-checks''
              (user_key_of plain_request))
   \<and> fst (region_health live_env us_east_off ''us-east'' plain_request) =
       Returned (amber_fragment ''Region disabled'')
   \<and> no_dsn unconfigured_env \<lparr>name = ''EU West (Ireland)'', role = ''REPLICA'',
         env_key = ''AIVEN_PG_EU_WEST'', color = ''#3b82f6''\<rparr>
   \<and> (\<exists>metrics. fst (region_health unconfigured_env fresh_state ''eu-west'' plain_request) =
         Returned (TemplateResponse ''partials/health_metrics.html'' (MetricsCtx metrics)))"
proof -
  let ?eu = "\<lparr>name = ''EU West (Ireland)'', role = ''REPLICA'',
         env_key = ''AIVEN_PG_EU_WEST'', color = ''#3b82f6''\<rparr>"
  let ?us = "\<lparr>name = ''US East (Virginia)'', role = ''PRIMARY'',
         env_key = ''AIVEN_PG_US_EAST'', color = ''#10b981''\<rparr>"
  have mars: "map_of REGIONS ''mars'' = None"
    and eu: "map_of REGIONS ''eu-west'' = Some ?eu"
    and us: "map_of REGIONS ''us-east'' = Some ?us"
    by (simp_all add: REGIONS_def)
  have health_off: "\<not> truthy (is_feature_enabled demo_env health_checks_off ''health-checks''
                (user_key_of plain_request))"
    by (simp add: is_feature_enabled_def demo_flag_or_true_def health_checks_off_def
        toggle_demo_flag_def example_defs)
  have us_off: "\<not> truthy (is_region_enabled live_env us_east_off ''us-east''
                (user_key_of plain_request))"
    by (simp add: is_region_enabled_def demo_flag_or_true_def toggle_demo_flag_def example_defs)
  have health_on: "truthy (is_feature_enabled live_env us_east_off ''health-checks''
              (user_key_of plain_request))"
    by (simp add: is_feature_enabled_def demo_flag_or_true_def toggle_demo_flag_def example_defs)
  have eu_on: "truthy (is_region_enabled unconfigured_env fresh_state ''eu-west''
              (user_key_of plain_request))"
    and eu_health: "truthy (is_feature_enabled unconfigured_env fresh_state ''health-checks''
              (user_key_of plain_request))"
    by (simp_all add: is_region_enabled_def is_feature_enabled_def demo_flag_or_true_def
        example_defs)
  have nodsn: "no_dsn unconfigured_env ?eu"
    by (simp add: no_dsn_def dsn_def example_defs)
  show ?thesis
    using mars eu us health_off us_off health_on eu_on eu_health nodsn
      conditions_answered_differently [of "''mars''" live_env fresh_state plain_request]
      conditions_answered_differently [of "''eu-west''" demo_env health_checks_off plain_request]
      conditions_answered_differently [of "''us-east''" live_env us_east_off plain_request]
      conditions_answered_differently [of "''eu-west''" unconfigured_env fresh_state plain_request]
    by simp
qed


end
